theory Spec2Isabelle
  imports Complex_Main "HOL-Library.Product_Lexorder" "HOL-Library.AList"
begin

section \<open>Python values used by the tilemap and the physics entity\<close>

text \<open>
  Python integers are \<open>int\<close>. Python floats are taken as exact real numbers (\<open>real\<close>):
  rounding of the binary representation is not modelled. Exceptions are values of
  \<open>error\<close>; a function that can raise returns \<open>error + 'a\<close>.
\<close>

datatype error =
    ZeroDivisionError | KeyError | ValueError | AttributeError | FileNotFoundError
  | MalformedDocument

text \<open>\<open>a // b\<close> on a float and an integer: the floor of the quotient, as a float.\<close>

definition py_floordiv :: "real \<Rightarrow> int \<Rightarrow> error + real" where
  "py_floordiv a b = (if b = 0 then Inl ZeroDivisionError else Inr (of_int \<lfloor>a / of_int b\<rfloor>))"

text \<open>\<open>int(x)\<close>: truncation toward zero.\<close>

definition py_int :: "real \<Rightarrow> int" where
  "py_int x = (if 0 \<le> x then \<lfloor>x\<rfloor> else \<lceil>x\<rceil>)"

text \<open>\<open>str(n)\<close> of an integer: decimal digits, with a leading minus sign below zero.\<close>

definition digit_char :: "nat \<Rightarrow> char" where
  "digit_char d = ''0123456789'' ! d"

fun str_nat :: "nat \<Rightarrow> string" where
  "str_nat n = (if n < 10 then [digit_char n] else str_nat (n div 10) @ [digit_char (n mod 10)])"

declare str_nat.simps [simp del]

definition str :: "int \<Rightarrow> string" where
  "str i = (if i < 0 then CHR ''-'' # str_nat (nat (- i)) else str_nat (nat i))"

text \<open>The key of a grid cell in the tile dictionary: \<open>f"{x};{y}"\<close>.\<close>

definition loc_key :: "int \<Rightarrow> int \<Rightarrow> string" where
  "loc_key x y = str x @ '';'' @ str y"

section \<open>Constants of \<open>play.py\<close>\<close>

definition NEIGHBOUR_OFFSETS :: "(int \<times> int) list" where
  "NEIGHBOUR_OFFSETS = [(1, 1), (1, 0), (1, -1), (0, 1), (0, 0), (0, -1), (-1, 1), (-1, 0), (-1, -1)]"

definition PHYSICS_TILES :: "string set" where
  "PHYSICS_TILES = {''grass'', ''stone''}"

definition AUTOTILE_TYPES :: "string set" where
  "AUTOTILE_TYPES = {''grass'', ''stone''}"

definition AUTOTILE_MAP :: "((int \<times> int) list \<times> int) list" where
  "AUTOTILE_MAP =
    [(sort [(1, 0), (0, 1)], 0),
     (sort [(1, 0), (0, 1), (-1, 0)], 1),
     (sort [(-1, 0), (0, 1)], 2),
     (sort [(-1, 0), (0, -1), (0, 1)], 3),
     (sort [(-1, 0), (0, -1)], 4),
     (sort [(-1, 0), (0, -1), (1, 0)], 5),
     (sort [(1, 0), (0, -1)], 6),
     (sort [(1, 0), (0, -1), (0, 1)], 7),
     (sort [(1, 0), (0, 1), (-1, 0), (0, -1)], 8)]"

section \<open>Tiles and the tilemap\<close>

text \<open>
  A tile is the dictionary \<open>{'type', 'variant', 'pos'}\<close>. The position of a grid tile
  holds two integers (grid units), that of an off-grid tile two floats (pixels). It is a
  tuple in a tile made by the editor and a list in a tile read by \<open>json.load\<close>;
  \<open>pos0\<close> and \<open>pos1\<close> are \<open>pos[0]\<close> and \<open>pos[1]\<close>.
\<close>

datatype 'p position =
    PosTuple (pos0: 'p) (pos1: 'p)
  | PosList (pos0: 'p) (pos1: 'p)

record 'p tile =
  ttype :: string
  variant :: int
  pos :: "'p position"

text \<open>
  The dictionary \<open>self.tilemap\<close> keeps insertion order, so it is an association list
  whose keys are distinct; \<open>map_of\<close> is the lookup, \<open>AList.update\<close> the assignment
  (an existing key keeps its place, a new key goes last) and \<open>AList.delete\<close> is \<open>del\<close>.
\<close>

type_synonym grid = "(string \<times> int tile) list"

record Tilemap =
  tile_size :: int
  tilemap :: grid
  offgrid_tiles :: "real tile list"

definition dict_ok :: "Tilemap \<Rightarrow> bool" where
  "dict_ok tm = distinct (map fst (tilemap tm))"

subsection \<open>\<open>Tilemap.tiles_around\<close>\<close>

fun tiles_around_loop :: "grid \<Rightarrow> int \<times> int \<Rightarrow> (int \<times> int) list \<Rightarrow> int tile list \<Rightarrow> int tile list" where
  "tiles_around_loop g tile_loc [] tiles = tiles"
| "tiles_around_loop g tile_loc (offset # rest) tiles =
     (let check_loc = loc_key (fst tile_loc + fst offset) (snd tile_loc + snd offset)
      in tiles_around_loop g tile_loc rest
           (case map_of g check_loc of None \<Rightarrow> tiles | Some t \<Rightarrow> tiles @ [t]))"

definition tiles_around :: "Tilemap \<Rightarrow> real \<times> real \<Rightarrow> error + int tile list" where
  "tiles_around tm p =
     (case py_floordiv (fst p) (tile_size tm) of
        Inl e \<Rightarrow> Inl e
      | Inr qx \<Rightarrow>
         (case py_floordiv (snd p) (tile_size tm) of
            Inl e \<Rightarrow> Inl e
          | Inr qy \<Rightarrow> Inr (tiles_around_loop (tilemap tm) (py_int qx, py_int qy) NEIGHBOUR_OFFSETS [])))"

subsection \<open>\<open>Tilemap.solid_check\<close>\<close>

text \<open>The function returns \<open>None\<close> where the source falls off its end.\<close>

definition solid_check :: "Tilemap \<Rightarrow> real \<times> real \<Rightarrow> error + int tile option" where
  "solid_check tm p =
     (case py_floordiv (fst p) (tile_size tm) of
        Inl e \<Rightarrow> Inl e
      | Inr qx \<Rightarrow>
         (case py_floordiv (snd p) (tile_size tm) of
            Inl e \<Rightarrow> Inl e
          | Inr qy \<Rightarrow>
             (let tile_loc = str (py_int qx) @ '';'' @ str (py_int qy)
              in case map_of (tilemap tm) tile_loc of
                   None \<Rightarrow> Inr None
                 | Some t \<Rightarrow> if ttype t \<in> PHYSICS_TILES then Inr (Some t) else Inr None)))"

subsection \<open>\<open>Tilemap.physics_rects_around\<close> and \<open>pygame.Rect\<close>\<close>

text \<open>
  \<open>pygame.Rect\<close> holds four integers; a float argument is truncated toward zero. The
  edges are \<open>left = x\<close>, \<open>right = x + w\<close>, \<open>top = y\<close>, \<open>bottom = y + h\<close>, and assigning
  to an edge moves the rectangle without resizing it. The bounds of C integers are
  not modelled.
\<close>

record Rect =
  rx :: int
  ry :: int
  rw :: int
  rh :: int

definition rect_left :: "Rect \<Rightarrow> int" where "rect_left r = rx r"
definition rect_right :: "Rect \<Rightarrow> int" where "rect_right r = rx r + rw r"
definition rect_top :: "Rect \<Rightarrow> int" where "rect_top r = ry r"
definition rect_bottom :: "Rect \<Rightarrow> int" where "rect_bottom r = ry r + rh r"

definition set_left :: "int \<Rightarrow> Rect \<Rightarrow> Rect" where "set_left v r = r\<lparr>rx := v\<rparr>"
definition set_right :: "int \<Rightarrow> Rect \<Rightarrow> Rect" where "set_right v r = r\<lparr>rx := v - rw r\<rparr>"
definition set_top :: "int \<Rightarrow> Rect \<Rightarrow> Rect" where "set_top v r = r\<lparr>ry := v\<rparr>"
definition set_bottom :: "int \<Rightarrow> Rect \<Rightarrow> Rect" where "set_bottom v r = r\<lparr>ry := v - rh r\<rparr>"

text \<open>\<open>Rect.colliderect\<close>: rectangles of zero width or height collide with nothing.\<close>

definition colliderect :: "Rect \<Rightarrow> Rect \<Rightarrow> bool" where
  "colliderect a b =
     (if rw a = 0 \<or> rh a = 0 \<or> rw b = 0 \<or> rh b = 0 then False
      else min (rx a) (rx a + rw a) < max (rx b) (rx b + rw b)
         \<and> min (ry a) (ry a + rh a) < max (ry b) (ry b + rh b)
         \<and> max (rx a) (rx a + rw a) > min (rx b) (rx b + rw b)
         \<and> max (ry a) (ry a + rh a) > min (ry b) (ry b + rh b))"

fun physics_rects_loop :: "int \<Rightarrow> int tile list \<Rightarrow> Rect list \<Rightarrow> Rect list" where
  "physics_rects_loop ts [] rects = rects"
| "physics_rects_loop ts (t # rest) rects =
     physics_rects_loop ts rest
       (if ttype t \<in> PHYSICS_TILES
        then rects @ [\<lparr>rx = pos0 (pos t) * ts, ry = pos1 (pos t) * ts, rw = ts, rh = ts\<rparr>]
        else rects)"

definition physics_rects_around :: "Tilemap \<Rightarrow> real \<times> real \<Rightarrow> error + Rect list" where
  "physics_rects_around tm p =
     (case tiles_around tm p of
        Inl e \<Rightarrow> Inl e
      | Inr tiles \<Rightarrow> Inr (physics_rects_loop (tile_size tm) tiles []))"

subsection \<open>\<open>Tilemap.autotile\<close>\<close>

text \<open>
  The set \<open>neighbours\<close> is a list without repetitions; \<open>tuple(sorted(neighbours))\<close> is
  its sorted list in the lexicographic order of pairs. The loop runs over the keys of the
  dictionary and changes the variant of the tile stored under the key.
\<close>

definition shifts :: "(int \<times> int) list" where
  "shifts = [(1, 0), (-1, 0), (0, -1), (0, 1)]"

fun neighbours_loop :: "grid \<Rightarrow> int tile \<Rightarrow> (int \<times> int) list \<Rightarrow> (int \<times> int) list \<Rightarrow> (int \<times> int) list" where
  "neighbours_loop g tile [] neighbours = neighbours"
| "neighbours_loop g tile (shift # rest) neighbours =
     (let check_loc = str (pos0 (pos tile) + fst shift) @ '';'' @ str (pos1 (pos tile) + snd shift)
      in neighbours_loop g tile rest
           (case map_of g check_loc of
              None \<Rightarrow> neighbours
            | Some t \<Rightarrow> if ttype t = ttype tile then List.insert shift neighbours else neighbours))"

fun autotile_loop :: "string list \<Rightarrow> grid \<Rightarrow> error + grid" where
  "autotile_loop [] g = Inr g"
| "autotile_loop (loc # rest) g =
     (case map_of g loc of
        None \<Rightarrow> Inl KeyError
      | Some tile \<Rightarrow>
         (let neighbours = sort (neighbours_loop g tile shifts [])
          in autotile_loop rest
               (if ttype tile \<in> AUTOTILE_TYPES
                then (case map_of AUTOTILE_MAP neighbours of
                        None \<Rightarrow> g
                      | Some v \<Rightarrow> AList.update loc (tile\<lparr>variant := v\<rparr>) g)
                else g)))"

definition autotile :: "Tilemap \<Rightarrow> error + Tilemap" where
  "autotile tm =
     (case autotile_loop (map fst (tilemap tm)) (tilemap tm) of
        Inl e \<Rightarrow> Inl e
      | Inr g \<Rightarrow> Inr (tm\<lparr>tilemap := g\<rparr>))"

subsection \<open>\<open>Tilemap.extract\<close>\<close>

text \<open>
  \<open>list.remove(x)\<close> deletes the first element equal to \<open>x\<close> and raises \<open>ValueError\<close>
  when there is none. Both loops of \<open>extract\<close> run over a copy taken before the loop
  and change the live container. A matched off-grid tile is copied as it is. Of a matched
  grid tile the position is copied with \<open>pos.copy()\<close>, a method that a list has and a
  tuple has not (\<open>AttributeError\<close>), and the copy is multiplied by the tile size in both
  coordinates. What a call that raises has changed before is not modelled.
\<close>

fun py_remove :: "'a \<Rightarrow> 'a list \<Rightarrow> error + 'a list" where
  "py_remove x [] = Inl ValueError"
| "py_remove x (y # ys) =
     (if x = y then Inr ys
      else (case py_remove x ys of Inl e \<Rightarrow> Inl e | Inr r \<Rightarrow> Inr (y # r)))"

fun extract_offgrid ::
  "(string \<times> int) list \<Rightarrow> bool \<Rightarrow> real tile list \<Rightarrow> real tile list \<Rightarrow> real tile list
     \<Rightarrow> error + (real tile list \<times> real tile list)" where
  "extract_offgrid id_pairs keep [] matches og = Inr (matches, og)"
| "extract_offgrid id_pairs keep (tile # rest) matches og =
     (if (ttype tile, variant tile) \<in> set id_pairs
      then (if \<not> keep
            then (case py_remove tile og of
                    Inl e \<Rightarrow> Inl e
                  | Inr og' \<Rightarrow> extract_offgrid id_pairs keep rest (matches @ [tile]) og')
            else extract_offgrid id_pairs keep rest (matches @ [tile]) og)
      else extract_offgrid id_pairs keep rest matches og)"

fun extract_grid ::
  "(string \<times> int) list \<Rightarrow> bool \<Rightarrow> int \<Rightarrow> string list \<Rightarrow> real tile list \<Rightarrow> grid
     \<Rightarrow> error + (real tile list \<times> grid)" where
  "extract_grid id_pairs keep ts [] matches g = Inr (matches, g)"
| "extract_grid id_pairs keep ts (loc # rest) matches g =
     (case map_of g loc of
        None \<Rightarrow> Inl KeyError
      | Some tile \<Rightarrow>
         if (ttype tile, variant tile) \<in> set id_pairs
         then (case pos tile of
                 PosTuple x y \<Rightarrow> Inl AttributeError
               | PosList x y \<Rightarrow>
                   extract_grid id_pairs keep ts rest
                     (matches @ [\<lparr>ttype = ttype tile, variant = variant tile,
                                  pos = PosList (of_int (x * ts)) (of_int (y * ts))\<rparr>])
                     (if \<not> keep then AList.delete loc g else g))
         else extract_grid id_pairs keep ts rest matches g)"

definition extract_tiles :: "Tilemap \<Rightarrow> (string \<times> int) list \<Rightarrow> bool \<Rightarrow> error + (real tile list \<times> Tilemap)" where
  "extract_tiles tm id_pairs keep =
     (case extract_offgrid id_pairs keep (offgrid_tiles tm) [] (offgrid_tiles tm) of
        Inl e \<Rightarrow> Inl e
      | Inr (m1, og) \<Rightarrow>
         (case extract_grid id_pairs keep (tile_size tm) (map fst (tilemap tm)) m1 (tilemap tm) of
            Inl e \<Rightarrow> Inl e
          | Inr (m2, g) \<Rightarrow> Inr (m2, tm\<lparr>tilemap := g, offgrid_tiles := og\<rparr>)))"

section \<open>The editor's edits and the saved file\<close>

text \<open>
  \<open>Editor.run\<close> places a grid tile under the key of its cell, deletes the tile of a
  cell when there is one, and appends an off-grid tile. The position it stores is a tuple.
\<close>

datatype edit =
    Place string int "int \<times> int"
  | Remove "int \<times> int"
  | AddOffgrid string int "real \<times> real"

fun apply_edit :: "Tilemap \<Rightarrow> edit \<Rightarrow> Tilemap" where
  "apply_edit tm (Place ty v tile_pos) =
     tm\<lparr>tilemap := AList.update (loc_key (fst tile_pos) (snd tile_pos))
                      \<lparr>ttype = ty, variant = v, pos = PosTuple (fst tile_pos) (snd tile_pos)\<rparr>
                      (tilemap tm)\<rparr>"
| "apply_edit tm (Remove tile_pos) =
     (let tile_loc = loc_key (fst tile_pos) (snd tile_pos)
      in if map_of (tilemap tm) tile_loc \<noteq> None
         then tm\<lparr>tilemap := AList.delete tile_loc (tilemap tm)\<rparr>
         else tm)"
| "apply_edit tm (AddOffgrid ty v p) =
     tm\<lparr>offgrid_tiles :=
          offgrid_tiles tm @ [\<lparr>ttype = ty, variant = v, pos = PosTuple (fst p) (snd p)\<rparr>]\<rparr>"

definition apply_edits :: "Tilemap \<Rightarrow> edit list \<Rightarrow> Tilemap" where
  "apply_edits tm es = foldl apply_edit tm es"

subsection \<open>The \<open>json\<close> library\<close>

text \<open>
  The \<open>json\<close> library is not part of the repository; it is modelled by the conversion
  tables of its documentation, between the Python values it accepts and the JSON
  documents it writes. \<open>json.dump\<close> writes a dictionary with string keys as an object in
  the order of the dictionary, a list and a tuple alike as an array, and integers, floats
  and strings as themselves. \<open>json.load\<close> reads an object as a dictionary built in the
  order of the document, a later duplicate of a key replacing the earlier value, and an
  array as a list. The text of the file is taken as a lossless notation of the document.
\<close>

datatype pyval =
    PyInt int
  | PyFloat real
  | PyStr string
  | PyList "pyval list"
  | PyTuple "pyval list"
  | PyDict "(string \<times> pyval) list"

datatype json =
    JInt int
  | JFloat real
  | JString string
  | JArray "json list"
  | JObject "(string \<times> json) list"

type_synonym files = "string \<rightharpoonup> json"

definition py_dict :: "(string \<times> 'a) list \<Rightarrow> (string \<times> 'a) list" where
  "py_dict kvs = foldl (\<lambda>d (k, v). AList.update k v d) [] kvs"

primrec json_dump :: "pyval \<Rightarrow> json" where
  "json_dump (PyInt i) = JInt i"
| "json_dump (PyFloat x) = JFloat x"
| "json_dump (PyStr s) = JString s"
| "json_dump (PyList vs) = JArray (map json_dump vs)"
| "json_dump (PyTuple vs) = JArray (map json_dump vs)"
| "json_dump (PyDict kvs) = JObject (map (map_prod id json_dump) kvs)"

primrec json_load :: "json \<Rightarrow> pyval" where
  "json_load (JInt i) = PyInt i"
| "json_load (JFloat x) = PyFloat x"
| "json_load (JString s) = PyStr s"
| "json_load (JArray js) = PyList (map json_load js)"
| "json_load (JObject kvs) = PyDict (py_dict (map (map_prod id json_load) kvs))"

subsection \<open>\<open>Tilemap.save\<close> and \<open>Tilemap.load\<close>\<close>

text \<open>
  The Python value that a tile, a position and the dictionary of the grid stand for.
\<close>

definition position_value :: "('p \<Rightarrow> pyval) \<Rightarrow> 'p position \<Rightarrow> pyval" where
  "position_value num p =
     (case p of
        PosTuple x y \<Rightarrow> PyTuple [num x, num y]
      | PosList x y \<Rightarrow> PyList [num x, num y])"

definition tile_value :: "('p \<Rightarrow> pyval) \<Rightarrow> 'p tile \<Rightarrow> pyval" where
  "tile_value num t =
     PyDict [(''type'', PyStr (ttype t)), (''variant'', PyInt (variant t)),
             (''pos'', position_value num (pos t))]"

definition save :: "Tilemap \<Rightarrow> string \<Rightarrow> files \<Rightarrow> files" where
  "save tm path fs =
     fs(path \<mapsto>
        json_dump
          (PyDict [(''tilemap'', PyDict (map (map_prod id (tile_value PyInt)) (tilemap tm))),
                   (''tile_size'', PyInt (tile_size tm)),
                   (''offgrid'', PyList (map (tile_value PyFloat) (offgrid_tiles tm)))]))"

text \<open>
  \<open>load\<close> assigns the three entries of the loaded dictionary to the three fields. The
  source keeps whatever values the entries hold; the typed model reads them as tiles and
  answers \<open>MalformedDocument\<close> for values of another shape.
\<close>

fun value_int :: "pyval \<Rightarrow> int option" where
  "value_int (PyInt i) = Some i"
| "value_int _ = None"

fun value_float :: "pyval \<Rightarrow> real option" where
  "value_float (PyFloat x) = Some x"
| "value_float _ = None"

fun value_position :: "(pyval \<Rightarrow> 'p option) \<Rightarrow> pyval \<Rightarrow> 'p position option" where
  "value_position num (PyList [a, b]) =
     (case (num a, num b) of (Some x, Some y) \<Rightarrow> Some (PosList x y) | _ \<Rightarrow> None)"
| "value_position num (PyTuple [a, b]) =
     (case (num a, num b) of (Some x, Some y) \<Rightarrow> Some (PosTuple x y) | _ \<Rightarrow> None)"
| "value_position num _ = None"

fun value_tile :: "(pyval \<Rightarrow> 'p option) \<Rightarrow> pyval \<Rightarrow> 'p tile option" where
  "value_tile num (PyDict d) =
     (case (map_of d ''type'', map_of d ''variant'', map_of d ''pos'') of
        (Some (PyStr ty), Some (PyInt v), Some p) \<Rightarrow>
          (case value_position num p of
             Some q \<Rightarrow> Some \<lparr>ttype = ty, variant = v, pos = q\<rparr>
           | None \<Rightarrow> None)
      | _ \<Rightarrow> None)"
| "value_tile num _ = None"

fun value_grid :: "(string \<times> pyval) list \<Rightarrow> grid option" where
  "value_grid [] = Some []"
| "value_grid ((k, v) # rest) =
     (case (value_tile value_int v, value_grid rest) of
        (Some t, Some g) \<Rightarrow> Some ((k, t) # g)
      | _ \<Rightarrow> None)"

fun value_offgrid :: "pyval list \<Rightarrow> real tile list option" where
  "value_offgrid [] = Some []"
| "value_offgrid (v # rest) =
     (case (value_tile value_float v, value_offgrid rest) of
        (Some t, Some ts) \<Rightarrow> Some (t # ts)
      | _ \<Rightarrow> None)"

definition load :: "Tilemap \<Rightarrow> string \<Rightarrow> files \<Rightarrow> error + Tilemap" where
  "load tm path fs =
     (case fs path of
        None \<Rightarrow> Inl FileNotFoundError
      | Some doc \<Rightarrow>
         (case json_load doc of
            PyDict map_data \<Rightarrow>
              (case map_of map_data ''tilemap'' of
                 None \<Rightarrow> Inl KeyError
               | Some vt \<Rightarrow>
                  (case map_of map_data ''tile_size'' of
                     None \<Rightarrow> Inl KeyError
                   | Some vs \<Rightarrow>
                      (case map_of map_data ''offgrid'' of
                         None \<Rightarrow> Inl KeyError
                       | Some vo \<Rightarrow>
                          (case (vt, vs, vo) of
                             (PyDict gd, PyInt ts, PyList ovs) \<Rightarrow>
                               (case (value_grid gd, value_offgrid ovs) of
                                  (Some g, Some og) \<Rightarrow>
                                    Inr (tm\<lparr>tilemap := g, tile_size := ts, offgrid_tiles := og\<rparr>)
                                | _ \<Rightarrow> Inl MalformedDocument)
                           | _ \<Rightarrow> Inl MalformedDocument))))
          | _ \<Rightarrow> Inl MalformedDocument))"

section \<open>\<open>PhysicsEntity\<close>\<close>

text \<open>
  The fields of the entity that \<open>update\<close> reads or writes. The animation, which
  \<open>update\<close> advances last and which touches no other field, is left out. The source
  changes the entity in place; the model returns the changed entity.
\<close>

record Collisions =
  up :: bool
  down :: bool
  right :: bool
  left :: bool

record PhysicsEntity =
  epos :: "real \<times> real"
  esize :: "int \<times> int"
  velocity :: "real \<times> real"
  collisions :: Collisions
  flip :: bool
  last_movement :: "real \<times> real"

definition rect :: "PhysicsEntity \<Rightarrow> Rect" where
  "rect e = \<lparr>rx = py_int (fst (epos e)), ry = py_int (snd (epos e)),
             rw = fst (esize e), rh = snd (esize e)\<rparr>"

definition no_collisions :: Collisions where
  "no_collisions = \<lparr>up = False, down = False, right = False, left = False\<rparr>"

definition frame_movement :: "real \<times> real \<Rightarrow> PhysicsEntity \<Rightarrow> real \<times> real" where
  "frame_movement movement e =
     (fst movement + fst (velocity e), snd movement + snd (velocity e))"

text \<open>
  The body of the horizontal loop. \<open>entity_rect\<close> is computed once before the loop and
  carried through it; the position is written back from it after every overlap.
\<close>

fun x_loop :: "real \<Rightarrow> Rect list \<Rightarrow> Rect \<times> PhysicsEntity \<Rightarrow> Rect \<times> PhysicsEntity" where
  "x_loop fmx [] s = s"
| "x_loop fmx (r # rest) (entity_rect, e) =
     (if colliderect entity_rect r
      then
        (let (er1, e1) =
               (if fmx > 0
                then (set_right (rect_left r) entity_rect,
                      e\<lparr>collisions := (collisions e)\<lparr>right := True\<rparr>\<rparr>)
                else (entity_rect, e));
             (er2, e2) =
               (if fmx < 0
                then (set_left (rect_right r) er1,
                      e1\<lparr>collisions := (collisions e1)\<lparr>left := True\<rparr>\<rparr>)
                else (er1, e1))
         in x_loop fmx rest (er2, e2\<lparr>epos := (of_int (rx er2), snd (epos e2))\<rparr>))
      else x_loop fmx rest (entity_rect, e))"

fun y_loop :: "real \<Rightarrow> Rect list \<Rightarrow> Rect \<times> PhysicsEntity \<Rightarrow> Rect \<times> PhysicsEntity" where
  "y_loop fmy [] s = s"
| "y_loop fmy (r # rest) (entity_rect, e) =
     (if colliderect entity_rect r
      then
        (let (er1, e1) =
               (if fmy > 0
                then (set_bottom (rect_top r) entity_rect,
                      e\<lparr>collisions := (collisions e)\<lparr>down := True\<rparr>\<rparr>)
                else (entity_rect, e));
             (er2, e2) =
               (if fmy < 0
                then (set_top (rect_bottom r) er1,
                      e1\<lparr>collisions := (collisions e1)\<lparr>up := True\<rparr>\<rparr>)
                else (er1, e1))
         in y_loop fmy rest (er2, e2\<lparr>epos := (fst (epos e2), of_int (ry er2))\<rparr>))
      else y_loop fmy rest (entity_rect, e))"

text \<open>The horizontal pass: move, then resolve against the rectangles around the new position.\<close>

definition x_pass :: "Tilemap \<Rightarrow> real \<Rightarrow> PhysicsEntity \<Rightarrow> error + PhysicsEntity" where
  "x_pass tm fmx e =
     (let e1 = e\<lparr>epos := (fst (epos e) + fmx, snd (epos e))\<rparr>;
          entity_rect = rect e1
      in case physics_rects_around tm (epos e1) of
           Inl err \<Rightarrow> Inl err
         | Inr rects \<Rightarrow> Inr (snd (x_loop fmx rects (entity_rect, e1))))"

definition y_pass :: "Tilemap \<Rightarrow> real \<Rightarrow> PhysicsEntity \<Rightarrow> error + PhysicsEntity" where
  "y_pass tm fmy e =
     (let e1 = e\<lparr>epos := (fst (epos e), snd (epos e) + fmy)\<rparr>;
          entity_rect = rect e1
      in case physics_rects_around tm (epos e1) of
           Inl err \<Rightarrow> Inl err
         | Inr rects \<Rightarrow> Inr (snd (y_loop fmy rects (entity_rect, e1))))"

text \<open>Facing, the remembered movement and gravity: the end of \<open>update\<close>.\<close>

definition finish :: "real \<times> real \<Rightarrow> PhysicsEntity \<Rightarrow> PhysicsEntity" where
  "finish movement e =
     (let e1 = (if fst movement > 0 then e\<lparr>flip := False\<rparr> else e);
          e2 = (if fst movement < 0 then e1\<lparr>flip := True\<rparr> else e1);
          e3 = e2\<lparr>last_movement := movement\<rparr>;
          e4 = e3\<lparr>velocity := (fst (velocity e3), min 5 (snd (velocity e3) + 1 / 10))\<rparr>
      in if down (collisions e4) \<or> up (collisions e4)
         then e4\<lparr>velocity := (fst (velocity e4), 0)\<rparr>
         else e4)"

definition update :: "Tilemap \<Rightarrow> real \<times> real \<Rightarrow> PhysicsEntity \<Rightarrow> error + PhysicsEntity" where
  "update tm movement e =
     (let e0 = e\<lparr>collisions := no_collisions\<rparr>;
          fm = frame_movement movement e0
      in case x_pass tm (fst fm) e0 of
           Inl err \<Rightarrow> Inl err
         | Inr e1 \<Rightarrow>
            (case y_pass tm (snd fm) e1 of
               Inl err \<Rightarrow> Inl err
             | Inr e2 \<Rightarrow> Inr (finish movement e2)))"

section \<open>Notions used to state the properties\<close>

text \<open>The tile stored for the grid cell \<open>(x, y)\<close>, when there is one.\<close>

definition cell :: "Tilemap \<Rightarrow> int \<Rightarrow> int \<Rightarrow> int tile option" where
  "cell tm x y = map_of (tilemap tm) (loc_key x y)"

definition present :: "'a option \<Rightarrow> 'a list" where
  "present v = (case v of None \<Rightarrow> [] | Some t \<Rightarrow> [t])"

definition physics_tile :: "int tile option \<Rightarrow> int tile option" where
  "physics_tile v =
     (case v of None \<Rightarrow> None | Some t \<Rightarrow> if ttype t \<in> PHYSICS_TILES then Some t else None)"

text \<open>Stores and tiles on which the properties are run.\<close>

definition grass_at :: "int \<Rightarrow> int \<Rightarrow> int tile" where
  "grass_at x y = \<lparr>ttype = ''grass'', variant = 1, pos = PosList x y\<rparr>"

definition decor_at :: "int \<Rightarrow> int \<Rightarrow> int tile" where
  "decor_at x y = \<lparr>ttype = ''decor'', variant = 2, pos = PosList x y\<rparr>"

definition small_map :: Tilemap where
  "small_map =
     \<lparr>tile_size = 16,
      tilemap = [(''1;0'', grass_at 1 0), (''0;1'', grass_at 0 1), (''-1;0'', decor_at (-1) 0)],
      offgrid_tiles = [\<lparr>ttype = ''spawners'', variant = 1, pos = PosList (5 / 2) 5\<rparr>]\<rparr>"

text \<open>
  What one round of the loop of \<open>autotile\<close> makes of a tile, the neighbours being looked
  up in the grid \<open>g\<close>; and the grid in which every tile of \<open>g\<close> is so replaced.
\<close>

definition autotile_tile :: "grid \<Rightarrow> int tile \<Rightarrow> int tile" where
  "autotile_tile g tile =
     (if ttype tile \<in> AUTOTILE_TYPES
      then (case map_of AUTOTILE_MAP (sort (neighbours_loop g tile shifts [])) of
              None \<Rightarrow> tile
            | Some v \<Rightarrow> tile\<lparr>variant := v\<rparr>)
      else tile)"

definition autotile_grid :: "grid \<Rightarrow> grid \<Rightarrow> grid" where
  "autotile_grid g0 g = map (\<lambda>(k, t). (k, autotile_tile g0 t)) g"

text \<open>
  A tile has a same-type neighbour at a shift when the cell at that shift from the tile's
  position holds a tile of the tile's type. The signature of a tile is the sorted list of
  the cardinal shifts at which it has one.
\<close>

definition same_type_neighbour :: "Tilemap \<Rightarrow> int tile \<Rightarrow> int \<times> int \<Rightarrow> bool" where
  "same_type_neighbour tm t shift =
     (case cell tm (pos0 (pos t) + fst shift) (pos1 (pos t) + snd shift) of
        None \<Rightarrow> False
      | Some t' \<Rightarrow> ttype t' = ttype t)"

definition signature :: "Tilemap \<Rightarrow> int tile \<Rightarrow> (int \<times> int) list" where
  "signature tm t = sort (filter (same_type_neighbour tm t) shifts)"

definition cross_map :: Tilemap where
  "cross_map =
     \<lparr>tile_size = 16,
      tilemap = [(''0;0'', grass_at 0 0), (''1;0'', grass_at 1 0), (''-1;0'', grass_at (-1) 0),
                 (''0;-1'', grass_at 0 (-1)), (''0;1'', grass_at 0 1), (''5;5'', decor_at 5 5)],
      offgrid_tiles = []\<rparr>"

definition corner_map :: Tilemap where
  "corner_map =
     \<lparr>tile_size = 16,
      tilemap = [(''2;3'', grass_at 2 3), (''3;3'', grass_at 3 3), (''2;4'', grass_at 2 4)],
      offgrid_tiles = []\<rparr>"

text \<open>A grid tile with its position in pixels.\<close>

definition in_pixels :: "int \<Rightarrow> int tile \<Rightarrow> real tile" where
  "in_pixels ts t =
     \<lparr>ttype = ttype t, variant = variant t,
      pos = PosList (of_int (pos0 (pos t)) * of_int ts) (of_int (pos1 (pos t)) * of_int ts)\<rparr>"

text \<open>
  What \<open>extract\<close> is to return for a list of \<open>(type, variant)\<close> pairs: the off-grid
  tiles with a listed pair, then the grid tiles with a listed pair, rescaled to pixels;
  and the store that is left once the tiles with a listed pair are taken out.
\<close>

definition in_id_pairs :: "(string \<times> int) list \<Rightarrow> 'p tile \<Rightarrow> bool" where
  "in_id_pairs id_pairs t = ((ttype t, variant t) \<in> set id_pairs)"

definition extracted :: "Tilemap \<Rightarrow> (string \<times> int) list \<Rightarrow> real tile list" where
  "extracted tm id_pairs =
     filter (in_id_pairs id_pairs) (offgrid_tiles tm)
     @ map (in_pixels (tile_size tm)) (filter (in_id_pairs id_pairs) (map snd (tilemap tm)))"

definition without :: "Tilemap \<Rightarrow> (string \<times> int) list \<Rightarrow> Tilemap" where
  "without tm id_pairs =
     tm\<lparr>tilemap := filter (\<lambda>(k, t). \<not> in_id_pairs id_pairs t) (tilemap tm),
        offgrid_tiles := filter (\<lambda>t. \<not> in_id_pairs id_pairs t) (offgrid_tiles tm)\<rparr>"

text \<open>
  The stores on which \<open>extract\<close> finds only lists to copy: every grid tile with a
  listed pair holds its position as a list.
\<close>

definition is_list :: "'p position \<Rightarrow> bool" where
  "is_list p = (case p of PosTuple x y \<Rightarrow> False | PosList x y \<Rightarrow> True)"

definition listed_as_lists :: "Tilemap \<Rightarrow> (string \<times> int) list \<Rightarrow> bool" where
  "listed_as_lists tm id_pairs =
     list_all (\<lambda>t. is_list (pos t)) (filter (in_id_pairs id_pairs) (map snd (tilemap tm)))"

text \<open>A store with every position turned into a list, as \<open>json.load\<close> returns it.\<close>

definition with_list :: "'p tile \<Rightarrow> 'p tile" where
  "with_list t = t\<lparr>pos := PosList (pos0 (pos t)) (pos1 (pos t))\<rparr>"

definition as_loaded :: "Tilemap \<Rightarrow> Tilemap" where
  "as_loaded tm =
     tm\<lparr>tilemap := map (map_prod id with_list) (tilemap tm),
        offgrid_tiles := map with_list (offgrid_tiles tm)\<rparr>"

definition placed_map :: Tilemap where
  "placed_map =
     apply_edits \<lparr>tile_size = 16, tilemap = [], offgrid_tiles = []\<rparr>
       [Place ''decor'' 2 (- 1, 2), AddOffgrid ''spawners'' 1 (5 / 2, 5)]"

definition reloaded_map :: Tilemap where
  "reloaded_map =
     \<lparr>tile_size = 16,
      tilemap = [(''-1;2'', decor_at (- 1) 2)],
      offgrid_tiles = [\<lparr>ttype = ''spawners'', variant = 1, pos = PosList (5 / 2) 5\<rparr>]\<rparr>"

definition marker_map :: Tilemap where
  "marker_map =
     \<lparr>tile_size = 16,
      tilemap = [(''3;2'', \<lparr>ttype = ''spawners'', variant = 0, pos = PosList 3 2\<rparr>),
                 (''1;0'', grass_at 1 0),
                 (''-1;2'', decor_at (- 1) 2)],
      offgrid_tiles = [\<lparr>ttype = ''spawners'', variant = 1, pos = PosList (5 / 2) 5\<rparr>,
                       \<lparr>ttype = ''decor'', variant = 0, pos = PosTuple 7 (9 / 2)\<rparr>]\<rparr>"

text \<open>
  The entity moved along one axis, the physics rectangles around a position (none when
  the query raises), and those of them that overlap the moved entity: the contacts of
  the horizontal and of the vertical pass.
\<close>

definition x_moved :: "real \<Rightarrow> PhysicsEntity \<Rightarrow> PhysicsEntity" where
  "x_moved fmx e = e\<lparr>epos := (fst (epos e) + fmx, snd (epos e))\<rparr>"

definition y_moved :: "real \<Rightarrow> PhysicsEntity \<Rightarrow> PhysicsEntity" where
  "y_moved fmy e = e\<lparr>epos := (fst (epos e), snd (epos e) + fmy)\<rparr>"

definition rects_at :: "Tilemap \<Rightarrow> real \<times> real \<Rightarrow> Rect list" where
  "rects_at tm p = (case physics_rects_around tm p of Inl err \<Rightarrow> [] | Inr rects \<Rightarrow> rects)"

definition x_contacts :: "Tilemap \<Rightarrow> real \<Rightarrow> PhysicsEntity \<Rightarrow> Rect list" where
  "x_contacts tm fmx e =
     filter (colliderect (rect (x_moved fmx e))) (rects_at tm (epos (x_moved fmx e)))"

definition y_contacts :: "Tilemap \<Rightarrow> real \<Rightarrow> PhysicsEntity \<Rightarrow> Rect list" where
  "y_contacts tm fmy e =
     filter (colliderect (rect (y_moved fmy e))) (rects_at tm (epos (y_moved fmy e)))"

definition runner :: PhysicsEntity where
  "runner =
     \<lparr>epos = (13 / 2, 0), esize = (8, 15), velocity = (0, 0), collisions = no_collisions,
      flip = True, last_movement = (0, 0)\<rparr>"

definition faller :: PhysicsEntity where
  "faller =
     \<lparr>epos = (1 / 2, 1 / 2), esize = (8, 15), velocity = (0, 3), collisions = no_collisions,
      flip = False, last_movement = (0, 0)\<rparr>"

definition jumper :: PhysicsEntity where
  "jumper =
     \<lparr>epos = (1 / 2, 33), esize = (8, 15), velocity = (0, - 3), collisions = no_collisions,
      flip = False, last_movement = (0, 0)\<rparr>"

definition resting :: PhysicsEntity where
  "resting =
     \<lparr>epos = (21 / 2, 0), esize = (8, 15), velocity = (0, 0), collisions = no_collisions,
      flip = False, last_movement = (0, 0)\<rparr>"

text \<open>Rectangles and entities on which the properties are run.\<close>

definition wall :: Rect where
  "wall = \<lparr>rx = 16, ry = 0, rw = 16, rh = 16\<rparr>"

definition floor_rect :: Rect where
  "floor_rect = \<lparr>rx = 0, ry = 16, rw = 16, rh = 16\<rparr>"

definition diver :: PhysicsEntity where
  "diver =
     \<lparr>epos = (13 / 2, 1 / 2), esize = (8, 15), velocity = (0, 3), collisions = no_collisions,
      flip = True, last_movement = (0, 0)\<rparr>"

section \<open>Queries\<close>

lemma py_int_of_int: "py_int (of_int i) = i"
  by (simp add: py_int_def)

lemma tiles_around_loop_append:
  "tiles_around_loop g loc offs acc =
     acc @ concat (map (\<lambda>off. present (map_of g (loc_key (fst loc + fst off) (snd loc + snd off)))) offs)"
  by (induction offs arbitrary: acc) (simp_all add: present_def split: option.split)

lemma tiles_around_floor:
  assumes "tile_size tm \<noteq> 0"
  shows "tiles_around tm (px, py) =
     Inr (tiles_around_loop (tilemap tm)
            (\<lfloor>px / of_int (tile_size tm)\<rfloor>, \<lfloor>py / of_int (tile_size tm)\<rfloor>) NEIGHBOUR_OFFSETS [])"
  using assms by (simp add: tiles_around_def py_floordiv_def py_int_of_int)

lemma tiles_around_cells:
  assumes "tile_size tm \<noteq> 0"
  shows "tiles_around tm (px, py) =
     (let gx = \<lfloor>px / of_int (tile_size tm)\<rfloor>; gy = \<lfloor>py / of_int (tile_size tm)\<rfloor>
      in Inr (present (cell tm (gx + 1) (gy + 1)) @ present (cell tm (gx + 1) gy)
            @ present (cell tm (gx + 1) (gy - 1)) @ present (cell tm gx (gy + 1))
            @ present (cell tm gx gy) @ present (cell tm gx (gy - 1))
            @ present (cell tm (gx - 1) (gy + 1)) @ present (cell tm (gx - 1) gy)
            @ present (cell tm (gx - 1) (gy - 1))))"
  by (simp add: tiles_around_floor [OF assms] tiles_around_loop_append NEIGHBOUR_OFFSETS_def
      cell_def Let_def)

lemma small_map_cells:
  "cell small_map 1 0 = Some (grass_at 1 0)"
  "cell small_map 0 1 = Some (grass_at 0 1)"
  "cell small_map (-1) 0 = Some (decor_at (-1) 0)"
  "cell small_map 1 1 = None" "cell small_map 1 (-1) = None" "cell small_map 0 0 = None"
  "cell small_map 0 (-1) = None" "cell small_map (-1) 1 = None" "cell small_map (-1) (-1) = None"
  by (simp_all add: cell_def small_map_def loc_key_def str_def str_nat.simps digit_char_def)

text \<open>
  C5. With a tile size other than zero, \<open>tiles_around\<close> at any position returns the
  tiles present in the nine cells around the cell \<open>(\<lfloor>x / tile_size\<rfloor>, \<lfloor>y / tile_size\<rfloor>)\<close>
  of the position, in the order (+1,+1), (+1,0), (+1,-1), (0,+1), (0,0), (0,-1), (-1,+1),
  (-1,0), (-1,-1); when none of the nine cells holds a tile it returns the empty list.
\<close>

theorem tiles_around_scan_order:
  assumes "tile_size tm \<noteq> 0"
  shows "tiles_around tm (px, py) =
     (let gx = \<lfloor>px / of_int (tile_size tm)\<rfloor>; gy = \<lfloor>py / of_int (tile_size tm)\<rfloor>
      in Inr (present (cell tm (gx + 1) (gy + 1)) @ present (cell tm (gx + 1) gy)
            @ present (cell tm (gx + 1) (gy - 1)) @ present (cell tm gx (gy + 1))
            @ present (cell tm gx gy) @ present (cell tm gx (gy - 1))
            @ present (cell tm (gx - 1) (gy + 1)) @ present (cell tm (gx - 1) gy)
            @ present (cell tm (gx - 1) (gy - 1))))
    \<and> ((\<forall>dx \<in> {-1, 0, 1}. \<forall>dy \<in> {-1, 0, 1}.
            cell tm (\<lfloor>px / of_int (tile_size tm)\<rfloor> + dx) (\<lfloor>py / of_int (tile_size tm)\<rfloor> + dy) = None)
          \<longrightarrow> tiles_around tm (px, py) = Inr [])"
  by (simp add: tiles_around_cells [OF assms] Let_def present_def)

theorem tiles_around_scan_order_witness:
  "tile_size small_map \<noteq> 0
   \<and> tiles_around small_map (21 / 2, 5 / 2) = Inr [grass_at 1 0, grass_at 0 1, decor_at (-1) 0]
   \<and> tiles_around (small_map\<lparr>tilemap := []\<rparr>) (21 / 2, 5 / 2) = Inr []"
proof -
  have ts: "tile_size small_map = 16"
    by (simp add: small_map_def)
  have "tiles_around small_map (21 / 2, 5 / 2) = Inr [grass_at 1 0, grass_at 0 1, decor_at (-1) 0]"
    using tiles_around_scan_order [of small_map "21 / 2" "5 / 2"]
    by (simp add: ts small_map_cells present_def Let_def)
  moreover have "tiles_around (small_map\<lparr>tilemap := []\<rparr>) (21 / 2, 5 / 2) = Inr []"
    using tiles_around_scan_order [of "small_map\<lparr>tilemap := []\<rparr>" "21 / 2" "5 / 2"]
    by (simp add: ts cell_def present_def)
  ultimately show ?thesis
    by (simp add: ts)
qed

text \<open>
  C8. With a tile size other than zero, \<open>solid_check\<close> looks up the single cell of the
  position and returns its tile when the cell holds one of a physics type; at a cell
  holding a tile of another type (such as decor) and at an empty cell it returns \<open>None\<close>
  and raises nothing.
\<close>

theorem solid_check_single_cell:
  assumes "tile_size tm \<noteq> 0"
  shows "solid_check tm (px, py) =
           Inr (physics_tile (cell tm \<lfloor>px / of_int (tile_size tm)\<rfloor> \<lfloor>py / of_int (tile_size tm)\<rfloor>))
    \<and> (\<forall>t. cell tm \<lfloor>px / of_int (tile_size tm)\<rfloor> \<lfloor>py / of_int (tile_size tm)\<rfloor> = Some t
            \<and> ttype t \<notin> PHYSICS_TILES \<longrightarrow> solid_check tm (px, py) = Inr None)
    \<and> (cell tm \<lfloor>px / of_int (tile_size tm)\<rfloor> \<lfloor>py / of_int (tile_size tm)\<rfloor> = None
         \<longrightarrow> solid_check tm (px, py) = Inr None)"
  using assms
  by (simp add: solid_check_def py_floordiv_def py_int_of_int cell_def loc_key_def physics_tile_def
      split: option.split)

theorem solid_check_single_cell_witness:
  "tile_size small_map \<noteq> 0
   \<and> cell small_map (- 1) 0 = Some (decor_at (-1) 0)
   \<and> ttype (decor_at (-1) 0) \<notin> PHYSICS_TILES
   \<and> solid_check small_map (- 3, 5) = Inr None
   \<and> cell small_map 0 0 = None
   \<and> solid_check small_map (5, 5) = Inr None
   \<and> solid_check small_map (20, 5) = Inr (Some (grass_at 1 0))"
proof -
  have ts: "tile_size small_map = 16"
    by (simp add: small_map_def)
  have ty: "ttype (decor_at (-1) 0) \<notin> PHYSICS_TILES" "ttype (grass_at 1 0) \<in> PHYSICS_TILES"
    by (simp_all add: decor_at_def grass_at_def PHYSICS_TILES_def)
  show ?thesis
    using solid_check_single_cell [of small_map "- 3" 5]
      solid_check_single_cell [of small_map 5 5]
      solid_check_single_cell [of small_map 20 5]
    by (simp add: ts ty small_map_cells physics_tile_def)
qed

section \<open>Autotiling\<close>

lemma AUTOTILE_MAP_sorted:
  "AUTOTILE_MAP =
    [([(0, 1), (1, 0)], 0), ([(-1, 0), (0, 1), (1, 0)], 1), ([(-1, 0), (0, 1)], 2),
     ([(-1, 0), (0, -1), (0, 1)], 3), ([(-1, 0), (0, -1)], 4), ([(-1, 0), (0, -1), (1, 0)], 5),
     ([(0, -1), (1, 0)], 6), ([(0, -1), (0, 1), (1, 0)], 7),
     ([(-1, 0), (0, -1), (0, 1), (1, 0)], 8)]"
  by (simp add: AUTOTILE_MAP_def)

lemma neighbours_loop_types:
  assumes "\<And>k. map_option ttype (map_of g k) = map_option ttype (map_of g' k)"
  shows "neighbours_loop g tile sh nb = neighbours_loop g' tile sh nb"
proof (induction sh arbitrary: nb)
  case Nil
  show ?case by simp
next
  case (Cons s sh)
  let ?k = "str (pos0 (pos tile) + fst s) @ '';'' @ str (pos1 (pos tile) + snd s)"
  have "(case map_of g ?k of None \<Rightarrow> nb
          | Some t \<Rightarrow> if ttype t = ttype tile then List.insert s nb else nb)
      = (case map_of g' ?k of None \<Rightarrow> nb
          | Some t \<Rightarrow> if ttype t = ttype tile then List.insert s nb else nb)"
    using assms [of ?k] by (auto split: option.splits)
  then show ?case
    by (simp add: Cons.IH Let_def)
qed

lemma neighbours_loop_tile:
  assumes "pos t' = pos t" and "ttype t' = ttype t"
  shows "neighbours_loop g t' sh nb = neighbours_loop g t sh nb"
  by (induction sh arbitrary: nb) (simp_all add: assms cong: option.case_cong)

lemma autotile_tile_types:
  assumes "\<And>k. map_option ttype (map_of g k) = map_option ttype (map_of g' k)"
  shows "autotile_tile g tile = autotile_tile g' tile"
  by (simp add: autotile_tile_def neighbours_loop_types [OF assms])

lemma ttype_autotile_tile [simp]: "ttype (autotile_tile g t) = ttype t"
  by (simp add: autotile_tile_def split: option.split)

lemma pos_autotile_tile [simp]: "pos (autotile_tile g t) = pos t"
  by (simp add: autotile_tile_def split: option.split)

lemma map_of_autotile_grid:
  "map_of (autotile_grid g0 g) k = map_option (autotile_tile g0) (map_of g k)"
  by (induction g) (auto simp: autotile_grid_def)

lemma keys_autotile_grid [simp]: "map fst (autotile_grid g0 g) = map fst g"
  by (induction g) (auto simp: autotile_grid_def)

lemma types_autotile_grid:
  "map_option ttype (map_of (autotile_grid g0 dn @ todo) k) = map_option ttype (map_of (dn @ todo) k)"
  by (simp add: map_of_append map_add_def map_of_autotile_grid option.map_comp comp_def
      split: option.split)

lemma update_in_place:
  "k \<notin> fst ` set xs \<Longrightarrow> AList.update k v (xs @ (k, t) # ys) = xs @ (k, v) # ys"
  by (induction xs) auto

lemma map_of_in_place:
  "k \<notin> fst ` set xs \<Longrightarrow> map_of (xs @ (k, t) # ys) k = Some t"
  by (induction xs) auto

lemma autotile_step:
  assumes "map_of g loc = Some tile"
  shows "(if ttype tile \<in> AUTOTILE_TYPES
          then (case map_of AUTOTILE_MAP (sort (neighbours_loop g tile shifts [])) of
                  None \<Rightarrow> g
                | Some v \<Rightarrow> AList.update loc (tile\<lparr>variant := v\<rparr>) g)
          else g) = AList.update loc (autotile_tile g tile) g"
  using assms by (simp add: autotile_tile_def update_triv split: option.split)

lemma autotile_loop_closed:
  assumes "distinct (map fst (dn @ todo))" and "g0 = dn @ todo"
  shows "autotile_loop (map fst todo) (autotile_grid g0 dn @ todo) = Inr (autotile_grid g0 g0)"
  using assms
proof (induction todo arbitrary: dn)
  case Nil
  then show ?case by simp
next
  case (Cons p todo)
  obtain k t where p: "p = (k, t)" by (cases p)
  let ?g = "autotile_grid g0 dn @ (k, t) # todo"
  have notin: "k \<notin> fst ` set (autotile_grid g0 dn)"
    using Cons.prems(1) keys_autotile_grid [of g0 dn] unfolding p
    by (metis distinct.simps(2) distinct_append fst_conv list.simps(9) map_append
        disjoint_iff list.set_intros(1) list.set_map)
  have look: "map_of ?g k = Some t"
    by (rule map_of_in_place [OF notin])
  have same: "autotile_tile ?g t = autotile_tile g0 t"
    by (rule autotile_tile_types) (simp only: types_autotile_grid Cons.prems(2) p)
  have "AList.update k (autotile_tile g0 t) ?g = autotile_grid g0 dn @ (k, autotile_tile g0 t) # todo"
    by (rule update_in_place [OF notin])
  then have upd: "AList.update k (autotile_tile ?g t) ?g = autotile_grid g0 (dn @ [(k, t)]) @ todo"
    unfolding same by (simp add: autotile_grid_def)
  have "autotile_loop (map fst (p # todo)) ?g = autotile_loop (map fst todo) (AList.update k (autotile_tile ?g t) ?g)"
    unfolding p using look autotile_step [OF look] by (simp add: Let_def)
  also have "\<dots> = autotile_loop (map fst todo) (autotile_grid g0 (dn @ [(k, t)]) @ todo)"
    by (simp only: upd)
  also have "\<dots> = Inr (autotile_grid g0 g0)"
    by (rule Cons.IH) (use Cons.prems p in simp_all)
  finally show ?case by (simp add: p)
qed

lemma autotile_closed:
  assumes "dict_ok tm"
  shows "autotile tm = Inr (tm\<lparr>tilemap := autotile_grid (tilemap tm) (tilemap tm)\<rparr>)"
  using autotile_loop_closed [of "[]" "tilemap tm" "tilemap tm"] assms
  by (simp add: autotile_def dict_ok_def autotile_grid_def)

lemma autotile_tile_twice:
  "autotile_tile (autotile_grid g g) (autotile_tile g t) = autotile_tile g t"
proof -
  have ty: "\<And>k. map_option ttype (map_of (autotile_grid g g) k) = map_option ttype (map_of g k)"
    using types_autotile_grid [of g g "[]"] by simp
  have nb: "neighbours_loop g (autotile_tile g t) shifts [] = neighbours_loop g t shifts []"
    by (rule neighbours_loop_tile) simp_all
  show ?thesis 
    unfolding autotile_tile_types [OF ty]
    by (simp add: autotile_tile_def [of g "autotile_tile g t"] nb) (simp add: autotile_tile_def split: option.split)
qed

lemma neighbours_loop_fold:
  "neighbours_loop (tilemap tm) t sh nb =
     fold (\<lambda>s nb. if same_type_neighbour tm t s then List.insert s nb else nb) sh nb"
  by (induction sh arbitrary: nb)
    (simp_all add: same_type_neighbour_def cell_def loc_key_def Let_def split: option.split)

lemma sort_neighbours_loop:
  "sort (neighbours_loop (tilemap tm) t shifts []) = signature tm t"
  unfolding neighbours_loop_fold signature_def shifts_def
  by (cases "same_type_neighbour tm t (1, 0)"; cases "same_type_neighbour tm t (-1, 0)";
      cases "same_type_neighbour tm t (0, -1)"; cases "same_type_neighbour tm t (0, 1)")
    simp_all

lemma autotile_tile_signature:
  "autotile_tile (tilemap tm) t =
     (if ttype t \<in> AUTOTILE_TYPES
      then (case map_of AUTOTILE_MAP (signature tm t) of None \<Rightarrow> t | Some v \<Rightarrow> t\<lparr>variant := v\<rparr>)
      else t)"
  by (simp add: autotile_tile_def sort_neighbours_loop)

lemma signature_cross:
  assumes "same_type_neighbour tm t (1, 0)" "same_type_neighbour tm t (-1, 0)"
    "same_type_neighbour tm t (0, -1)" "same_type_neighbour tm t (0, 1)"
  shows "map_of AUTOTILE_MAP (signature tm t) = Some 8"
  using assms by (simp add: signature_def shifts_def AUTOTILE_MAP_sorted)

lemma signature_corner:
  assumes "same_type_neighbour tm t (1, 0)" "\<not> same_type_neighbour tm t (-1, 0)"
    "\<not> same_type_neighbour tm t (0, -1)" "same_type_neighbour tm t (0, 1)"
  shows "map_of AUTOTILE_MAP (signature tm t) = Some 0"
  using assms by (simp add: signature_def shifts_def AUTOTILE_MAP_sorted)

lemma signature_few:
  assumes "length (filter (same_type_neighbour tm t) shifts) \<le> 1"
  shows "map_of AUTOTILE_MAP (signature tm t) = None"
  using assms unfolding signature_def shifts_def AUTOTILE_MAP_sorted
  by (cases "same_type_neighbour tm t (1, 0)"; cases "same_type_neighbour tm t (-1, 0)";
      cases "same_type_neighbour tm t (0, -1)"; cases "same_type_neighbour tm t (0, 1)")
    simp_all

lemma pos_grass [simp]: "pos (grass_at x y) = PosList x y" "ttype (grass_at x y) = ''grass''"
  by (simp_all add: grass_at_def)

lemma pos_decor [simp]: "pos (decor_at x y) = PosList x y" "ttype (decor_at x y) = ''decor''"
  by (simp_all add: decor_at_def)

lemma cross_map_cells:
  "cell cross_map 0 0 = Some (grass_at 0 0)" "cell cross_map 1 0 = Some (grass_at 1 0)"
  "cell cross_map (-1) 0 = Some (grass_at (-1) 0)" "cell cross_map 0 (-1) = Some (grass_at 0 (-1))"
  "cell cross_map 0 1 = Some (grass_at 0 1)" "cell cross_map 2 0 = None"
  "cell cross_map 1 1 = None" "cell cross_map 1 (-1) = None"
  "cell cross_map (-2) 0 = None" "cell cross_map (-1) 1 = None" "cell cross_map (-1) (-1) = None"
  "cell cross_map 0 (-2) = None" "cell cross_map 0 2 = None"
  by (simp_all add: cell_def cross_map_def loc_key_def str_def str_nat.simps digit_char_def)

lemma corner_map_cells:
  "cell corner_map 2 3 = Some (grass_at 2 3)" "cell corner_map 3 3 = Some (grass_at 3 3)"
  "cell corner_map 2 4 = Some (grass_at 2 4)" "cell corner_map 1 3 = None"
  "cell corner_map 2 2 = None"
  by (simp_all add: cell_def corner_map_def loc_key_def str_def str_nat.simps digit_char_def)

lemma cross_map_signatures:
  "signature cross_map (grass_at 0 0) = [(-1, 0), (0, -1), (0, 1), (1, 0)]"
  "signature cross_map (grass_at 1 0) = [(-1, 0)]"
  "signature cross_map (grass_at (-1) 0) = [(1, 0)]"
  "signature cross_map (grass_at 0 (-1)) = [(0, 1)]"
  "signature cross_map (grass_at 0 1) = [(0, -1)]"
  by (simp_all add: signature_def shifts_def same_type_neighbour_def cross_map_cells)

lemma autotile_cross_map:
  "autotile cross_map =
     Inr (cross_map\<lparr>tilemap :=
       [(''0;0'', (grass_at 0 0)\<lparr>variant := 8\<rparr>), (''1;0'', grass_at 1 0), (''-1;0'', grass_at (-1) 0),
        (''0;-1'', grass_at 0 (-1)), (''0;1'', grass_at 0 1), (''5;5'', decor_at 5 5)]\<rparr>)"
proof -
  have ok: "dict_ok cross_map"
    by (simp add: dict_ok_def cross_map_def)
  have g: "tilemap cross_map = [(''0;0'', grass_at 0 0), (''1;0'', grass_at 1 0), (''-1;0'', grass_at (-1) 0),
                 (''0;-1'', grass_at 0 (-1)), (''0;1'', grass_at 0 1), (''5;5'', decor_at 5 5)]"
    by (simp add: cross_map_def)
  have "autotile_grid (tilemap cross_map) (tilemap cross_map) =
       [(''0;0'', (grass_at 0 0)\<lparr>variant := 8\<rparr>), (''1;0'', grass_at 1 0), (''-1;0'', grass_at (-1) 0),
        (''0;-1'', grass_at 0 (-1)), (''0;1'', grass_at 0 1), (''5;5'', decor_at 5 5)]"
    unfolding autotile_grid_def
    by (subst (2) g) (simp add: autotile_tile_signature cross_map_signatures AUTOTILE_MAP_sorted AUTOTILE_TYPES_def)
  then show ?thesis
    by (simp add: autotile_closed [OF ok])
qed

text \<open>
  C3. \<open>autotile\<close> is idempotent: on every store (a dictionary has distinct keys) it
  returns a store, and running it on that store returns the same store again.
\<close>

theorem autotile_idempotent:
  assumes "dict_ok tm"
  shows "\<exists>tm'. autotile tm = Inr tm' \<and> autotile tm' = Inr tm'"
proof -
  let ?tm' = "tm\<lparr>tilemap := autotile_grid (tilemap tm) (tilemap tm)\<rparr>"
  have ok: "dict_ok ?tm'" using assms by (simp add: dict_ok_def)
  have "autotile_grid (tilemap ?tm') (tilemap ?tm') = tilemap ?tm'"
    by (simp add: autotile_grid_def autotile_tile_twice [unfolded autotile_grid_def] comp_def case_prod_beta)
  then have "autotile ?tm' = Inr ?tm'"
    by (simp add: autotile_closed [OF ok])
  then show ?thesis using autotile_closed [OF assms] by simp
qed

theorem autotile_idempotent_witness:
  "dict_ok cross_map
   \<and> autotile cross_map =
       Inr (cross_map\<lparr>tilemap :=
         [(''0;0'', (grass_at 0 0)\<lparr>variant := 8\<rparr>), (''1;0'', grass_at 1 0), (''-1;0'', grass_at (-1) 0),
          (''0;-1'', grass_at 0 (-1)), (''0;1'', grass_at 0 1), (''5;5'', decor_at 5 5)]\<rparr>)
   \<and> autotile (cross_map\<lparr>tilemap :=
         [(''0;0'', (grass_at 0 0)\<lparr>variant := 8\<rparr>), (''1;0'', grass_at 1 0), (''-1;0'', grass_at (-1) 0),
          (''0;-1'', grass_at 0 (-1)), (''0;1'', grass_at 0 1), (''5;5'', decor_at 5 5)]\<rparr>) =
       Inr (cross_map\<lparr>tilemap :=
         [(''0;0'', (grass_at 0 0)\<lparr>variant := 8\<rparr>), (''1;0'', grass_at 1 0), (''-1;0'', grass_at (-1) 0),
          (''0;-1'', grass_at 0 (-1)), (''0;1'', grass_at 0 1), (''5;5'', decor_at 5 5)]\<rparr>)"
proof -
  have ok: "dict_ok cross_map"
    by (simp add: dict_ok_def cross_map_def)
  from autotile_idempotent [OF ok] obtain tm'
    where "autotile cross_map = Inr tm'" and "autotile tm' = Inr tm'"
    by blast
  then show ?thesis
    using ok by (simp add: autotile_cross_map)
qed

text \<open>
  C4. On a store with distinct keys \<open>autotile\<close> returns a store in which a tile of an
  autotile type that has same-type neighbours at all four cardinal shifts has variant 8,
  one that has them at \<open>(1, 0)\<close> and \<open>(0, 1)\<close> and at no other shift has variant 0,
  and one whose signature is not a key of \<open>AUTOTILE_MAP\<close>, as is every signature of at
  most one shift, is unchanged.
\<close>

theorem autotile_variants:
  assumes "dict_ok tm" and "map_of (tilemap tm) k = Some t" and "ttype t \<in> AUTOTILE_TYPES"
  shows "\<exists>tm'. autotile tm = Inr tm'
    \<and> (same_type_neighbour tm t (1, 0) \<and> same_type_neighbour tm t (-1, 0)
        \<and> same_type_neighbour tm t (0, -1) \<and> same_type_neighbour tm t (0, 1)
        \<longrightarrow> map_of (tilemap tm') k = Some (t\<lparr>variant := 8\<rparr>))
    \<and> (same_type_neighbour tm t (1, 0) \<and> same_type_neighbour tm t (0, 1)
        \<and> \<not> same_type_neighbour tm t (-1, 0) \<and> \<not> same_type_neighbour tm t (0, -1)
        \<longrightarrow> map_of (tilemap tm') k = Some (t\<lparr>variant := 0\<rparr>))
    \<and> (map_of AUTOTILE_MAP (signature tm t) = None \<longrightarrow> map_of (tilemap tm') k = Some t)
    \<and> (length (filter (same_type_neighbour tm t) shifts) \<le> 1
        \<longrightarrow> map_of (tilemap tm') k = Some t)"
proof -
  let ?tm' = "tm\<lparr>tilemap := autotile_grid (tilemap tm) (tilemap tm)\<rparr>"
  have run: "autotile tm = Inr ?tm'"
    by (rule autotile_closed [OF assms(1)])
  have look: "map_of (autotile_grid (tilemap tm) (tilemap tm)) k =
      Some (case map_of AUTOTILE_MAP (signature tm t) of None \<Rightarrow> t | Some v \<Rightarrow> t\<lparr>variant := v\<rparr>)"
    by (simp add: map_of_autotile_grid assms(2,3) autotile_tile_signature)
  have a: "same_type_neighbour tm t (1, 0) \<and> same_type_neighbour tm t (-1, 0)
        \<and> same_type_neighbour tm t (0, -1) \<and> same_type_neighbour tm t (0, 1)
        \<longrightarrow> map_of (tilemap ?tm') k = Some (t\<lparr>variant := 8\<rparr>)"
    by (simp add: look signature_cross)
  have b: "same_type_neighbour tm t (1, 0) \<and> same_type_neighbour tm t (0, 1)
        \<and> \<not> same_type_neighbour tm t (-1, 0) \<and> \<not> same_type_neighbour tm t (0, -1)
        \<longrightarrow> map_of (tilemap ?tm') k = Some (t\<lparr>variant := 0\<rparr>)"
    by (simp add: look signature_corner)
  have c: "map_of AUTOTILE_MAP (signature tm t) = None \<longrightarrow> map_of (tilemap ?tm') k = Some t"
    by (simp add: look)
  have d: "length (filter (same_type_neighbour tm t) shifts) \<le> 1
        \<longrightarrow> map_of (tilemap ?tm') k = Some t"
    using signature_few [of tm t] by (simp add: look)
  show ?thesis
    by (rule exI [of _ ?tm']) (intro conjI run a b c d)
qed

theorem autotile_variants_witness:
  "dict_ok cross_map \<and> dict_ok corner_map
   \<and> map_of (tilemap cross_map) ''0;0'' = Some (grass_at 0 0)
   \<and> map_of (tilemap cross_map) ''1;0'' = Some (grass_at 1 0)
   \<and> map_of (tilemap corner_map) ''2;3'' = Some (grass_at 2 3)
   \<and> ttype (grass_at 0 0) \<in> AUTOTILE_TYPES
   \<and> same_type_neighbour cross_map (grass_at 0 0) (1, 0)
   \<and> same_type_neighbour cross_map (grass_at 0 0) (-1, 0)
   \<and> same_type_neighbour cross_map (grass_at 0 0) (0, -1)
   \<and> same_type_neighbour cross_map (grass_at 0 0) (0, 1)
   \<and> length (filter (same_type_neighbour cross_map (grass_at 1 0)) shifts) = 1
   \<and> map_of AUTOTILE_MAP (signature cross_map (grass_at 1 0)) = None
   \<and> same_type_neighbour corner_map (grass_at 2 3) (1, 0)
   \<and> same_type_neighbour corner_map (grass_at 2 3) (0, 1)
   \<and> \<not> same_type_neighbour corner_map (grass_at 2 3) (-1, 0)
   \<and> \<not> same_type_neighbour corner_map (grass_at 2 3) (0, -1)
   \<and> (\<exists>tm'. autotile cross_map = Inr tm'
          \<and> map_of (tilemap tm') ''0;0'' = Some ((grass_at 0 0)\<lparr>variant := 8\<rparr>)
          \<and> map_of (tilemap tm') ''1;0'' = Some (grass_at 1 0))
   \<and> (\<exists>tm'. autotile corner_map = Inr tm'
          \<and> map_of (tilemap tm') ''2;3'' = Some ((grass_at 2 3)\<lparr>variant := 0\<rparr>))"
proof -
  have ok: "dict_ok cross_map" "dict_ok corner_map"
    by (simp_all add: dict_ok_def cross_map_def corner_map_def)
  have at: "map_of (tilemap cross_map) ''0;0'' = Some (grass_at 0 0)"
    "map_of (tilemap cross_map) ''1;0'' = Some (grass_at 1 0)"
    "map_of (tilemap corner_map) ''2;3'' = Some (grass_at 2 3)"
    by (simp_all add: cross_map_def corner_map_def)
  have ty: "\<And>x y. ttype (grass_at x y) \<in> AUTOTILE_TYPES"
    by (simp add: AUTOTILE_TYPES_def)
  have nb0: "same_type_neighbour cross_map (grass_at 0 0) (1, 0)"
    "same_type_neighbour cross_map (grass_at 0 0) (-1, 0)"
    "same_type_neighbour cross_map (grass_at 0 0) (0, -1)"
    "same_type_neighbour cross_map (grass_at 0 0) (0, 1)"
    by (simp_all add: same_type_neighbour_def cross_map_cells)
  have nb1: "same_type_neighbour cross_map (grass_at 1 0) (-1, 0)"
    "\<not> same_type_neighbour cross_map (grass_at 1 0) (1, 0)"
    "\<not> same_type_neighbour cross_map (grass_at 1 0) (0, -1)"
    "\<not> same_type_neighbour cross_map (grass_at 1 0) (0, 1)"
    by (simp_all add: same_type_neighbour_def cross_map_cells)
  have nb2: "same_type_neighbour corner_map (grass_at 2 3) (1, 0)"
    "same_type_neighbour corner_map (grass_at 2 3) (0, 1)"
    "\<not> same_type_neighbour corner_map (grass_at 2 3) (-1, 0)"
    "\<not> same_type_neighbour corner_map (grass_at 2 3) (0, -1)"
    by (simp_all add: same_type_neighbour_def corner_map_cells)
  have one: "length (filter (same_type_neighbour cross_map (grass_at 1 0)) shifts) = 1"
    by (simp add: shifts_def nb1)
  have sig: "map_of AUTOTILE_MAP (signature cross_map (grass_at 1 0)) = None"
    by (simp add: signature_def shifts_def nb1 AUTOTILE_MAP_sorted)
  from autotile_variants [OF ok(1) at(1) ty] nb0 obtain tm1
    where r1: "autotile cross_map = Inr tm1"
      "map_of (tilemap tm1) ''0;0'' = Some ((grass_at 0 0)\<lparr>variant := 8\<rparr>)"
    by blast
  from autotile_variants [OF ok(1) at(2) ty] one obtain tm2
    where r2: "autotile cross_map = Inr tm2" "map_of (tilemap tm2) ''1;0'' = Some (grass_at 1 0)"
    by auto
  from autotile_variants [OF ok(2) at(3) ty] nb2 obtain tm3
    where r3: "autotile corner_map = Inr tm3"
      "map_of (tilemap tm3) ''2;3'' = Some ((grass_at 2 3)\<lparr>variant := 0\<rparr>)"
    by blast
  have "tm2 = tm1"
    using r1(1) r2(1) by simp
  then have e1: "\<exists>tm'. autotile cross_map = Inr tm'
          \<and> map_of (tilemap tm') ''0;0'' = Some ((grass_at 0 0)\<lparr>variant := 8\<rparr>)
          \<and> map_of (tilemap tm') ''1;0'' = Some (grass_at 1 0)"
    using r1 r2 by blast
  have e3: "\<exists>tm'. autotile corner_map = Inr tm'
          \<and> map_of (tilemap tm') ''2;3'' = Some ((grass_at 2 3)\<lparr>variant := 0\<rparr>)"
    using r3 by blast
  show ?thesis
    by (intro conjI ok at ty nb0 one sig nb2 e1 e3)
qed

section \<open>Extraction\<close>

lemma py_remove_first:
  "x \<notin> set ys \<Longrightarrow> py_remove x (ys @ x # xs) = Inr (ys @ xs)"
  by (induction ys) auto

lemma extract_offgrid_keep:
  "extract_offgrid id_pairs True xs m og = Inr (m @ filter (in_id_pairs id_pairs) xs, og)"
  by (induction xs arbitrary: m) (simp_all add: in_id_pairs_def)

lemma extract_offgrid_remove:
  assumes "\<forall>y \<in> set ys. \<not> in_id_pairs id_pairs y"
  shows "extract_offgrid id_pairs False xs m (ys @ xs) =
           Inr (m @ filter (in_id_pairs id_pairs) xs,
                ys @ filter (\<lambda>t. \<not> in_id_pairs id_pairs t) xs)"
  using assms
proof (induction xs arbitrary: m ys)
  case Nil
  show ?case by simp
next
  case (Cons x xs)
  show ?case
  proof (cases "in_id_pairs id_pairs x")
    case True
    then have "x \<notin> set ys"
      using Cons.prems by blast
    then have "py_remove x (ys @ x # xs) = Inr (ys @ xs)"
      by (rule py_remove_first)
    then show ?thesis
      using True Cons.IH [OF Cons.prems, of "m @ [x]"] by (simp add: in_id_pairs_def)
  next
    case False
    then have "\<forall>y \<in> set (ys @ [x]). \<not> in_id_pairs id_pairs y"
      using Cons.prems by simp
    from Cons.IH [OF this, of m] show ?thesis
      using False by (simp add: in_id_pairs_def)
  qed
qed

lemma delete_in_place:
  "k \<notin> fst ` set xs \<Longrightarrow> k \<notin> fst ` set ys \<Longrightarrow> AList.delete k (xs @ (k, t) # ys) = xs @ ys"
  by (induction xs) auto

lemma list_copy_in_pixels:
  assumes "pos t = PosList x y"
  shows "\<lparr>ttype = ttype t, variant = variant t,
           pos = PosList (real_of_int x * real_of_int ts) (real_of_int y * real_of_int ts)\<rparr>
           = in_pixels ts t"
  using assms by (simp add: in_pixels_def)

lemma extract_grid_closed:
  assumes "distinct (map fst (dn @ todo))"
    and "list_all (\<lambda>t. is_list (pos t)) (filter (in_id_pairs id_pairs) (map snd todo))"
  shows "extract_grid id_pairs keep ts (map fst todo) m (dn @ todo) =
           Inr (m @ map (in_pixels ts) (filter (in_id_pairs id_pairs) (map snd todo)),
                if keep then dn @ todo
                else dn @ filter (\<lambda>(k, t). \<not> in_id_pairs id_pairs t) todo)"
  using assms
proof (induction todo arbitrary: m dn)
  case Nil
  show ?case by simp
next
  case (Cons p todo)
  obtain k t where p: "p = (k, t)" by (cases p)
  have notin: "k \<notin> fst ` set dn" "k \<notin> fst ` set todo"
    using Cons.prems(1) unfolding p by auto
  have look: "map_of (dn @ (k, t) # todo) k = Some t"
    by (rule map_of_in_place [OF notin(1)])
  have del: "AList.delete k (dn @ (k, t) # todo) = dn @ todo"
    by (rule delete_in_place [OF notin])
  have d1: "distinct (map fst (dn @ todo))" and d2: "distinct (map fst ((dn @ [(k, t)]) @ todo))"
    using Cons.prems(1) unfolding p by auto
  have rest: "list_all (\<lambda>t. is_list (pos t)) (filter (in_id_pairs id_pairs) (map snd todo))"
    using Cons.prems(2) unfolding p by (simp split: if_splits)
  show ?case
  proof (cases "in_id_pairs id_pairs t")
    case True
    then have "is_list (pos t)"
      using Cons.prems(2) unfolding p by simp
    then obtain x y where xy: "pos t = PosList x y"
      by (cases "pos t") (simp_all add: is_list_def)
    note copy = list_copy_in_pixels [OF xy, of ts]
    show ?thesis
    proof (cases keep)
      case True
      from Cons.IH [OF d2 rest, of "m @ [in_pixels ts t]"] \<open>in_id_pairs id_pairs t\<close> True look
      show ?thesis by (simp add: p in_id_pairs_def xy copy)
    next
      case False
      from Cons.IH [OF d1 rest, of "m @ [in_pixels ts t]"] \<open>in_id_pairs id_pairs t\<close> False look del
      show ?thesis by (simp add: p in_id_pairs_def xy copy)
    qed
  next
    case False
    from Cons.IH [OF d2 rest, of m] False look
    show ?thesis by (simp add: p in_id_pairs_def)
  qed
qed

lemma extract_tiles_keep:
  assumes "dict_ok tm" and "listed_as_lists tm id_pairs"
  shows "extract_tiles tm id_pairs True = Inr (extracted tm id_pairs, tm)"
  using extract_grid_closed [of "[]" "tilemap tm" id_pairs True] assms
  by (simp add: extract_tiles_def extract_offgrid_keep extracted_def dict_ok_def
      listed_as_lists_def)

lemma extract_tiles_remove:
  assumes "dict_ok tm" and "listed_as_lists tm id_pairs"
  shows "extract_tiles tm id_pairs False = Inr (extracted tm id_pairs, without tm id_pairs)"
  using extract_grid_closed [of "[]" "tilemap tm" id_pairs False] assms
    extract_offgrid_remove [of "[]" id_pairs "offgrid_tiles tm" "[]"]
  by (simp add: extract_tiles_def extracted_def without_def dict_ok_def listed_as_lists_def)

lemma dict_ok_without: "dict_ok tm \<Longrightarrow> dict_ok (without tm id_pairs)"
  by (simp add: dict_ok_def without_def distinct_map_filter)

lemma extracted_without: "extracted (without tm id_pairs) id_pairs = []"
  by (simp add: extracted_def without_def filter_map comp_def case_prod_beta)

lemma listed_without: "listed_as_lists (without tm id_pairs) id_pairs"
  by (simp add: listed_as_lists_def without_def filter_map comp_def case_prod_beta)

lemma without_without: "without (without tm id_pairs) id_pairs = without tm id_pairs"
  by (simp add: without_def)

lemma placed_map_fields:
  "tile_size placed_map = 16"
  "tilemap placed_map = [(''-1;2'', \<lparr>ttype = ''decor'', variant = 2, pos = PosTuple (- 1) 2\<rparr>)]"
  "offgrid_tiles placed_map = [\<lparr>ttype = ''spawners'', variant = 1, pos = PosTuple (5 / 2) 5\<rparr>]"
  by (simp_all add: placed_map_def apply_edits_def loc_key_def str_def str_nat.simps digit_char_def)

lemma extract_placed_map:
  "extract_tiles placed_map [(''decor'', 2)] keep = Inl AttributeError"
  by (cases keep) (simp_all add: extract_tiles_def placed_map_fields)

text \<open>
  C6 as stated fails: the store holds a grid tile with a listed pair, placed by the
  editor, and \<open>extract\<close> raises instead of returning a copy of it.
\<close>

theorem extract_raises_on_tuple_position:
  "tilemap placed_map = [(''-1;2'', \<lparr>ttype = ''decor'', variant = 2, pos = PosTuple (- 1) 2\<rparr>)]
   \<and> extract_tiles placed_map [(''decor'', 2)] True = Inl AttributeError
   \<and> extract_tiles placed_map [(''decor'', 2)] False = Inl AttributeError"
  by (simp add: placed_map_fields extract_placed_map)

text \<open>
  C6, as amended. On a store with distinct keys in which every grid tile with a listed
  \<open>(type, variant)\<close> holds its position as a list, \<open>extract\<close> returns the off-grid tiles
  and then the grid tiles whose pair is listed, each grid tile with both coordinates
  multiplied by the tile size. With \<open>keep\<close> the store is unchanged; without it the listed
  tiles are gone from the store, and extracting the same pairs from that store returns
  the empty list.
\<close>

theorem extract_tiles_result:
  assumes "dict_ok tm" and "listed_as_lists tm id_pairs"
  shows "extract_tiles tm id_pairs True = Inr (extracted tm id_pairs, tm)
    \<and> extract_tiles tm id_pairs False = Inr (extracted tm id_pairs, without tm id_pairs)
    \<and> extract_tiles (without tm id_pairs) id_pairs False = Inr ([], without tm id_pairs)"
  using extract_tiles_keep [OF assms] extract_tiles_remove [OF assms]
    extract_tiles_remove [OF dict_ok_without [OF assms(1), of id_pairs] listed_without [of tm id_pairs]]
  by (simp add: extracted_without without_without)

theorem extract_tiles_result_witness:
  "dict_ok marker_map
   \<and> listed_as_lists marker_map [(''spawners'', 0), (''spawners'', 1), (''decor'', 2)]
   \<and> extract_tiles marker_map [(''spawners'', 0), (''spawners'', 1), (''decor'', 2)] True =
       Inr ([\<lparr>ttype = ''spawners'', variant = 1, pos = PosList (5 / 2) 5\<rparr>,
             \<lparr>ttype = ''spawners'', variant = 0, pos = PosList 48 32\<rparr>,
             \<lparr>ttype = ''decor'', variant = 2, pos = PosList (- 16) 32\<rparr>], marker_map)
   \<and> extract_tiles marker_map [(''spawners'', 0), (''spawners'', 1), (''decor'', 2)] False =
       Inr ([\<lparr>ttype = ''spawners'', variant = 1, pos = PosList (5 / 2) 5\<rparr>,
             \<lparr>ttype = ''spawners'', variant = 0, pos = PosList 48 32\<rparr>,
             \<lparr>ttype = ''decor'', variant = 2, pos = PosList (- 16) 32\<rparr>],
            marker_map\<lparr>tilemap := [(''1;0'', grass_at 1 0)],
                       offgrid_tiles := [\<lparr>ttype = ''decor'', variant = 0, pos = PosTuple 7 (9 / 2)\<rparr>]\<rparr>)
   \<and> extract_tiles
        (marker_map\<lparr>tilemap := [(''1;0'', grass_at 1 0)],
                   offgrid_tiles := [\<lparr>ttype = ''decor'', variant = 0, pos = PosTuple 7 (9 / 2)\<rparr>]\<rparr>)
        [(''spawners'', 0), (''spawners'', 1), (''decor'', 2)] False =
       Inr ([], marker_map\<lparr>tilemap := [(''1;0'', grass_at 1 0)],
                       offgrid_tiles := [\<lparr>ttype = ''decor'', variant = 0, pos = PosTuple 7 (9 / 2)\<rparr>]\<rparr>)"
proof -
  let ?ids = "[(''spawners'', 0), (''spawners'', 1), (''decor'', 2)]"
  have ok: "dict_ok marker_map"
    by (simp add: dict_ok_def marker_map_def)
  have ls: "listed_as_lists marker_map ?ids"
    by (simp add: listed_as_lists_def marker_map_def in_id_pairs_def grass_at_def decor_at_def
        is_list_def)
  have ex: "extracted marker_map ?ids =
      [\<lparr>ttype = ''spawners'', variant = 1, pos = PosList (5 / 2) 5\<rparr>,
       \<lparr>ttype = ''spawners'', variant = 0, pos = PosList 48 32\<rparr>,
       \<lparr>ttype = ''decor'', variant = 2, pos = PosList (- 16) 32\<rparr>]"
    by (simp add: extracted_def marker_map_def in_id_pairs_def grass_at_def decor_at_def
        in_pixels_def)
  have wo: "without marker_map ?ids =
      marker_map\<lparr>tilemap := [(''1;0'', grass_at 1 0)],
                 offgrid_tiles := [\<lparr>ttype = ''decor'', variant = 0, pos = PosTuple 7 (9 / 2)\<rparr>]\<rparr>"
    by (simp add: without_def marker_map_def in_id_pairs_def grass_at_def decor_at_def)
  show ?thesis
    using extract_tiles_result [OF ok ls]
    by (simp only: ex wo ok ls simp_thms)
qed


section \<open>Saving and loading\<close>

lemma update_new_key:
  "k \<notin> fst ` set xs \<Longrightarrow> AList.update k v xs = xs @ [(k, v)]"
  by (induction xs) auto

lemma foldl_update_distinct:
  assumes "distinct (map fst (acc @ kvs))"
  shows "foldl (\<lambda>d (k, v). AList.update k v d) acc kvs = acc @ kvs"
  using assms
proof (induction kvs arbitrary: acc)
  case Nil
  show ?case by simp
next
  case (Cons p kvs)
  obtain k v where p: "p = (k, v)" by (cases p)
  have "k \<notin> fst ` set acc"
    using Cons.prems unfolding p by auto
  then have "AList.update k v acc = acc @ [(k, v)]"
    by (rule update_new_key)
  moreover have "distinct (map fst ((acc @ [(k, v)]) @ kvs))"
    using Cons.prems unfolding p by simp
  ultimately show ?case
    using Cons.IH [of "acc @ [(k, v)]"] by (simp add: p)
qed

lemma py_dict_distinct: "distinct (map fst kvs) \<Longrightarrow> py_dict kvs = kvs"
  using foldl_update_distinct [of "[]" kvs] by (simp add: py_dict_def)

lemma json_tile_int:
  "json_load (json_dump (tile_value PyInt t)) = tile_value PyInt (with_list t)"
  by (cases "pos t") (simp_all add: tile_value_def position_value_def py_dict_def with_list_def)

lemma json_tile_float:
  "json_load (json_dump (tile_value PyFloat t)) = tile_value PyFloat (with_list t)"
  by (cases "pos t") (simp_all add: tile_value_def position_value_def py_dict_def with_list_def)

lemma json_grid:
  assumes "distinct (map fst g)"
  shows "json_load (json_dump (PyDict (map (map_prod id (tile_value PyInt)) g))) =
           PyDict (map (map_prod id (tile_value PyInt)) (map (map_prod id with_list) g))"
proof -
  have eq: "map (map_prod id json_load) (map (map_prod id json_dump) (map (map_prod id (tile_value PyInt)) g))
      = map (map_prod id (tile_value PyInt)) (map (map_prod id with_list) g)"
    by (induction g) (auto simp: json_tile_int)
  have dist: "distinct (map fst (map (map_prod id (tile_value PyInt)) (map (map_prod id with_list) g)))"
    using assms by (simp add: comp_def)
  show ?thesis
    unfolding json_dump.simps json_load.simps eq
    by (simp only: py_dict_distinct [OF dist])
qed

lemma json_offgrid:
  "map json_load (map json_dump (map (tile_value PyFloat) og)) =
     map (tile_value PyFloat) (map with_list og)"
  by (induction og) (auto simp: json_tile_float)

lemma value_tile_int: "value_tile value_int (tile_value PyInt t) = Some t"
  by (cases t; cases "pos t") (simp_all add: tile_value_def position_value_def)

lemma value_tile_float: "value_tile value_float (tile_value PyFloat t) = Some t"
  by (cases t; cases "pos t") (simp_all add: tile_value_def position_value_def)

lemma value_grid_inverse: "value_grid (map (map_prod id (tile_value PyInt)) g) = Some g"
  by (induction g) (auto simp: value_tile_int)

lemma value_offgrid_inverse: "value_offgrid (map (tile_value PyFloat) og) = Some og"
  by (induction og) (auto simp: value_tile_float)

lemma load_save:
  assumes "dict_ok tm"
  shows "load cur path (save tm path fs) = Inr (as_loaded tm)"
proof -
  let ?D = "PyDict [(''tilemap'', PyDict (map (map_prod id (tile_value PyInt)) (tilemap tm))),
               (''tile_size'', PyInt (tile_size tm)),
               (''offgrid'', PyList (map (tile_value PyFloat) (offgrid_tiles tm)))]"
  have outer: "py_dict [(''tilemap'', a), (''tile_size'', b), (''offgrid'', c)] =
      [(''tilemap'', a), (''tile_size'', b), (''offgrid'', c)]" for a b c :: pyval
    by (simp add: py_dict_def)
  have g: "json_load (json_dump (PyDict (map (map_prod id (tile_value PyInt)) (tilemap tm)))) =
      PyDict (map (map_prod id (tile_value PyInt)) (map (map_prod id with_list) (tilemap tm)))"
    using assms by (intro json_grid) (simp add: dict_ok_def)
  have og: "json_load (json_dump (PyList (map (tile_value PyFloat) (offgrid_tiles tm)))) =
      PyList (map (tile_value PyFloat) (map with_list (offgrid_tiles tm)))"
    using json_offgrid [of "offgrid_tiles tm"] by simp
  have "json_load (json_dump ?D) =
      PyDict (py_dict
        [(''tilemap'', json_load (json_dump (PyDict (map (map_prod id (tile_value PyInt)) (tilemap tm))))),
         (''tile_size'', PyInt (tile_size tm)),
         (''offgrid'', json_load (json_dump (PyList (map (tile_value PyFloat) (offgrid_tiles tm)))))])"
    by simp
  then have doc: "json_load (json_dump ?D) =
      PyDict [(''tilemap'', PyDict (map (map_prod id (tile_value PyInt))
                 (map (map_prod id with_list) (tilemap tm)))),
              (''tile_size'', PyInt (tile_size tm)),
              (''offgrid'', PyList (map (tile_value PyFloat) (map with_list (offgrid_tiles tm))))]"
    by (simp only: g og outer)
  have sv: "save tm path fs path = Some (json_dump ?D)"
    by (simp add: save_def)
  have rec: "cur\<lparr>tilemap := map (map_prod id with_list) (tilemap tm), tile_size := tile_size tm,
        offgrid_tiles := map with_list (offgrid_tiles tm)\<rparr> = as_loaded tm"
    by (simp add: as_loaded_def)
  show ?thesis
    unfolding load_def sv option.case doc
    by (simp add: value_grid_inverse value_offgrid_inverse rec del: map_map)
qed

lemma dict_ok_apply_edit: "dict_ok tm \<Longrightarrow> dict_ok (apply_edit tm e)"
  by (cases e) (simp_all add: dict_ok_def distinct_update distinct_delete Let_def)

lemma dict_ok_apply_edits: "dict_ok tm \<Longrightarrow> dict_ok (apply_edits tm es)"
  unfolding apply_edits_def
  by (induction es arbitrary: tm) (simp_all add: dict_ok_apply_edit)

lemma dict_ok_as_loaded: "dict_ok tm \<Longrightarrow> dict_ok (as_loaded tm)"
  by (simp add: dict_ok_def as_loaded_def comp_def)

lemma as_loaded_twice: "as_loaded (as_loaded tm) = as_loaded tm"
  by (simp add: as_loaded_def with_list_def comp_def map_prod_def case_prod_beta)

lemma placed_map_record:
  "placed_map =
     \<lparr>tile_size = 16,
      tilemap = [(''-1;2'', \<lparr>ttype = ''decor'', variant = 2, pos = PosTuple (- 1) 2\<rparr>)],
      offgrid_tiles = [\<lparr>ttype = ''spawners'', variant = 1, pos = PosTuple (5 / 2) 5\<rparr>]\<rparr>"
  by (simp add: placed_map_def apply_edits_def loc_key_def str_def str_nat.simps digit_char_def)

lemma placed_map_loaded: "as_loaded placed_map = reloaded_map"
  by (simp add: placed_map_record as_loaded_def with_list_def reloaded_map_def decor_at_def)

text \<open>
  C2 as stated fails: a store with one placed grid tile and one added off-grid tile is
  not the store that saving and loading gives, and \<open>extract\<close> raises on the first and
  returns on the second.
\<close>

theorem load_save_changes_store:
  "load cross_map ''map.json'' (save placed_map ''map.json'' Map.empty) = Inr reloaded_map
   \<and> reloaded_map \<noteq> placed_map
   \<and> tilemap placed_map = [(''-1;2'', \<lparr>ttype = ''decor'', variant = 2, pos = PosTuple (- 1) 2\<rparr>)]
   \<and> tilemap reloaded_map = [(''-1;2'', \<lparr>ttype = ''decor'', variant = 2, pos = PosList (- 1) 2\<rparr>)]
   \<and> extract_tiles placed_map [(''decor'', 2)] True = Inl AttributeError
   \<and> extract_tiles reloaded_map [(''decor'', 2)] True =
       Inr ([\<lparr>ttype = ''decor'', variant = 2, pos = PosList (- 16) 32\<rparr>], reloaded_map)"
proof -
  have ok: "dict_ok placed_map" "dict_ok reloaded_map"
    by (simp_all add: dict_ok_def placed_map_record reloaded_map_def)
  have ld: "load cross_map ''map.json'' (save placed_map ''map.json'' Map.empty) = Inr reloaded_map"
    by (simp only: load_save [OF ok(1)] placed_map_loaded)
  have ne: "reloaded_map \<noteq> placed_map"
    by (simp add: placed_map_record reloaded_map_def decor_at_def)
  have ls: "listed_as_lists reloaded_map [(''decor'', 2)]"
    by (simp add: listed_as_lists_def reloaded_map_def in_id_pairs_def decor_at_def is_list_def)
  have ex: "extracted reloaded_map [(''decor'', 2)] =
      [\<lparr>ttype = ''decor'', variant = 2, pos = PosList (- 16) 32\<rparr>]"
    by (simp add: extracted_def reloaded_map_def in_id_pairs_def decor_at_def in_pixels_def)
  show ?thesis
    using ld ne extract_placed_map [of True] extract_tiles_keep [OF ok(2) ls]
    by (simp add: ex placed_map_fields) (simp add: reloaded_map_def decor_at_def)
qed

text \<open>
  C2, as amended. Whatever placements, removals and off-grid additions have been applied
  to a store (with distinct keys), saving the result to a file and loading that file into
  any store gives the saved store with every position turned into a list: the same grid
  tiles under the same keys in the same order, the same off-grid tiles in the same order,
  each with its type, variant and coordinates, and the same tile size, and nothing of
  the store loaded into. Saving and loading the loaded store gives exactly the loaded store.
\<close>

theorem load_save_round_trip:
  assumes "dict_ok tm"
  shows "load cur path (save (apply_edits tm es) path fs) = Inr (as_loaded (apply_edits tm es))
    \<and> load cur path (save (as_loaded (apply_edits tm es)) path fs)
        = Inr (as_loaded (apply_edits tm es))"
  using load_save [OF dict_ok_apply_edits [OF assms], of cur path es fs]
    load_save [OF dict_ok_as_loaded [OF dict_ok_apply_edits [OF assms]], of cur path es fs]
  by (simp add: as_loaded_twice)

theorem load_save_round_trip_witness:
  "dict_ok small_map
   \<and> apply_edits small_map [Place ''stone'' 3 (1, 0), Remove (0, 1), Remove (7, 7),
        AddOffgrid ''decor'' 2 (1 / 3, 4)] =
       \<lparr>tile_size = 16,
        tilemap = [(''1;0'', \<lparr>ttype = ''stone'', variant = 3, pos = PosTuple 1 0\<rparr>),
                   (''-1;0'', decor_at (-1) 0)],
        offgrid_tiles = [\<lparr>ttype = ''spawners'', variant = 1, pos = PosList (5 / 2) 5\<rparr>,
                         \<lparr>ttype = ''decor'', variant = 2, pos = PosTuple (1 / 3) 4\<rparr>]\<rparr>
   \<and> load cross_map ''map.json''
        (save (apply_edits small_map [Place ''stone'' 3 (1, 0), Remove (0, 1), Remove (7, 7),
           AddOffgrid ''decor'' 2 (1 / 3, 4)]) ''map.json'' Map.empty) =
       Inr \<lparr>tile_size = 16,
            tilemap = [(''1;0'', \<lparr>ttype = ''stone'', variant = 3, pos = PosList 1 0\<rparr>),
                       (''-1;0'', decor_at (-1) 0)],
            offgrid_tiles = [\<lparr>ttype = ''spawners'', variant = 1, pos = PosList (5 / 2) 5\<rparr>,
                             \<lparr>ttype = ''decor'', variant = 2, pos = PosList (1 / 3) 4\<rparr>]\<rparr>"
proof -
  let ?es = "[Place ''stone'' 3 (1, 0), Remove (0, 1), Remove (7, 7),
    AddOffgrid ''decor'' 2 (1 / 3, 4)]"
  have ok: "dict_ok small_map"
    by (simp add: dict_ok_def small_map_def)
  have keys: "loc_key 1 0 = ''1;0''" "loc_key 0 1 = ''0;1''" "loc_key 7 7 = ''7;7''"
    by (simp_all add: loc_key_def str_def str_nat.simps digit_char_def)
  have ed: "apply_edits small_map ?es =
       \<lparr>tile_size = 16,
        tilemap = [(''1;0'', \<lparr>ttype = ''stone'', variant = 3, pos = PosTuple 1 0\<rparr>),
                   (''-1;0'', decor_at (-1) 0)],
        offgrid_tiles = [\<lparr>ttype = ''spawners'', variant = 1, pos = PosList (5 / 2) 5\<rparr>,
                         \<lparr>ttype = ''decor'', variant = 2, pos = PosTuple (1 / 3) 4\<rparr>]\<rparr>"
    by (simp add: apply_edits_def keys small_map_def)
  have al: "as_loaded (apply_edits small_map ?es) =
       \<lparr>tile_size = 16,
        tilemap = [(''1;0'', \<lparr>ttype = ''stone'', variant = 3, pos = PosList 1 0\<rparr>),
                   (''-1;0'', decor_at (-1) 0)],
        offgrid_tiles = [\<lparr>ttype = ''spawners'', variant = 1, pos = PosList (5 / 2) 5\<rparr>,
                         \<lparr>ttype = ''decor'', variant = 2, pos = PosList (1 / 3) 4\<rparr>]\<rparr>"
    unfolding ed by (simp add: as_loaded_def with_list_def decor_at_def)
  from load_save_round_trip [OF ok, of cross_map "''map.json''" ?es Map.empty]
  have "load cross_map ''map.json'' (save (apply_edits small_map ?es) ''map.json'' Map.empty)
      = Inr (as_loaded (apply_edits small_map ?es))"
    by simp
  then show ?thesis
    using ok ed al by simp
qed

section \<open>The collision loops\<close>

lemma x_loop_frame:
  "esize (snd (x_loop fmx rs (er, e))) = esize e
   \<and> velocity (snd (x_loop fmx rs (er, e))) = velocity e
   \<and> flip (snd (x_loop fmx rs (er, e))) = flip e
   \<and> last_movement (snd (x_loop fmx rs (er, e))) = last_movement e
   \<and> snd (epos (snd (x_loop fmx rs (er, e)))) = snd (epos e)
   \<and> up (collisions (snd (x_loop fmx rs (er, e)))) = up (collisions e)
   \<and> down (collisions (snd (x_loop fmx rs (er, e)))) = down (collisions e)
   \<and> ry (fst (x_loop fmx rs (er, e))) = ry er
   \<and> rw (fst (x_loop fmx rs (er, e))) = rw er
   \<and> rh (fst (x_loop fmx rs (er, e))) = rh er"
  by (induction rs arbitrary: er e) (auto simp: set_right_def set_left_def)

lemma x_loop_no_contact:
  "\<forall>r \<in> set rs. \<not> colliderect er r \<Longrightarrow> x_loop fmx rs (er, e) = (er, e)"
  by (induction rs) simp_all

lemma x_loop_written:
  assumes "right (collisions e) \<or> left (collisions e) \<longrightarrow> fst (epos e) = of_int (rx er)"
  shows "right (collisions (snd (x_loop fmx rs (er, e)))) \<or> left (collisions (snd (x_loop fmx rs (er, e))))
         \<longrightarrow> fst (epos (snd (x_loop fmx rs (er, e)))) = of_int (rx (fst (x_loop fmx rs (er, e))))"
  using assms
  by (induction rs arbitrary: er e) auto

lemma x_loop_right_iff:
  "right (collisions (snd (x_loop fmx rs (er, e)))) \<longleftrightarrow>
     right (collisions e) \<or> (0 < fmx \<and> (\<exists>r \<in> set rs. colliderect er r))"
  by (induction rs arbitrary: er e) auto

lemma x_loop_left_iff:
  "left (collisions (snd (x_loop fmx rs (er, e)))) \<longleftrightarrow>
     left (collisions e) \<or> (fmx < 0 \<and> (\<exists>r \<in> set rs. colliderect er r))"
  by (induction rs arbitrary: er e) auto

lemma x_loop_zero:
  "x_loop 0 rs (er, e) =
     (er, if \<exists>r \<in> set rs. colliderect er r then e\<lparr>epos := (of_int (rx er), snd (epos e))\<rparr> else e)"
  by (induction rs arbitrary: e) auto



lemma y_loop_frame:
  "esize (snd (y_loop fmy rs (er, e))) = esize e
   \<and> velocity (snd (y_loop fmy rs (er, e))) = velocity e
   \<and> flip (snd (y_loop fmy rs (er, e))) = flip e
   \<and> last_movement (snd (y_loop fmy rs (er, e))) = last_movement e
   \<and> fst (epos (snd (y_loop fmy rs (er, e)))) = fst (epos e)
   \<and> right (collisions (snd (y_loop fmy rs (er, e)))) = right (collisions e)
   \<and> left (collisions (snd (y_loop fmy rs (er, e)))) = left (collisions e)
   \<and> rx (fst (y_loop fmy rs (er, e))) = rx er
   \<and> rw (fst (y_loop fmy rs (er, e))) = rw er
   \<and> rh (fst (y_loop fmy rs (er, e))) = rh er"
  by (induction rs arbitrary: er e) (auto simp: set_bottom_def set_top_def)

lemma y_loop_no_contact:
  "\<forall>r \<in> set rs. \<not> colliderect er r \<Longrightarrow> y_loop fmy rs (er, e) = (er, e)"
  by (induction rs) simp_all

lemma y_loop_written:
  assumes "down (collisions e) \<or> up (collisions e) \<longrightarrow> snd (epos e) = of_int (ry er)"
  shows "down (collisions (snd (y_loop fmy rs (er, e)))) \<or> up (collisions (snd (y_loop fmy rs (er, e))))
         \<longrightarrow> snd (epos (snd (y_loop fmy rs (er, e)))) = of_int (ry (fst (y_loop fmy rs (er, e))))"
  using assms
  by (induction rs arbitrary: er e) auto

lemma y_loop_down_iff:
  "down (collisions (snd (y_loop fmy rs (er, e)))) \<longleftrightarrow>
     down (collisions e) \<or> (0 < fmy \<and> (\<exists>r \<in> set rs. colliderect er r))"
  by (induction rs arbitrary: er e) auto

lemma y_loop_up_iff:
  "up (collisions (snd (y_loop fmy rs (er, e)))) \<longleftrightarrow>
     up (collisions e) \<or> (fmy < 0 \<and> (\<exists>r \<in> set rs. colliderect er r))"
  by (induction rs arbitrary: er e) auto

lemma y_loop_zero:
  "y_loop 0 rs (er, e) =
     (er, if \<exists>r \<in> set rs. colliderect er r then e\<lparr>epos := (fst (epos e), of_int (ry er))\<rparr> else e)"
  by (induction rs arbitrary: e) auto

lemma y_loop_stable:
  assumes "0 < fmy" and "\<forall>r \<in> set rs. colliderect c r \<longrightarrow> set_bottom (rect_top r) c = c"
  shows "fst (y_loop fmy rs (c, e)) = c"
  using assms by (induction rs arbitrary: e) simp_all

lemma y_loop_clamped:
  assumes "0 < fmy"
    and "\<exists>r \<in> set rs. colliderect er r"
    and "\<forall>r \<in> set rs. colliderect er r \<or> colliderect (set_bottom L er) r \<longrightarrow> rect_top r = L"
  shows "fst (y_loop fmy rs (er, e)) = set_bottom L er"
  using assms(2,3)
proof (induction rs arbitrary: e)
  case Nil
  then show ?case by simp
next
  case (Cons r rs)
  show ?case
  proof (cases "colliderect er r")
    case True
    then have L: "rect_top r = L"
      using Cons.prems(2) by simp
    have "\<forall>r' \<in> set rs. colliderect (set_bottom L er) r' \<longrightarrow> set_bottom (rect_top r') (set_bottom L er) = set_bottom L er"
      using Cons.prems(2) by (simp add: set_bottom_def)
    from y_loop_stable [OF assms(1) this] show ?thesis
      using True L assms(1) by simp
  next
    case False
    then have "\<exists>r \<in> set rs. colliderect er r"
      using Cons.prems(1) by simp
    moreover have "\<forall>r \<in> set rs. colliderect er r \<or> colliderect (set_bottom L er) r \<longrightarrow> rect_top r = L"
      using Cons.prems(2) by simp
    ultimately show ?thesis
      using Cons.IH False by simp
  qed
qed

section \<open>The update of a physics entity\<close>

lemma physics_rects_around_total:
  assumes "tile_size tm \<noteq> 0"
  shows "physics_rects_around tm p = Inr (rects_at tm p)"
  using tiles_around_floor [OF assms, of "fst p" "snd p"]
  by (simp add: rects_at_def physics_rects_around_def)

lemma x_pass_total:
  assumes "tile_size tm \<noteq> 0"
  shows "x_pass tm fmx e =
     Inr (snd (x_loop fmx (rects_at tm (epos (x_moved fmx e))) (rect (x_moved fmx e), x_moved fmx e)))"
  by (simp add: x_pass_def Let_def physics_rects_around_total [OF assms] x_moved_def)

lemma y_pass_total:
  assumes "tile_size tm \<noteq> 0"
  shows "y_pass tm fmy e =
     Inr (snd (y_loop fmy (rects_at tm (epos (y_moved fmy e))) (rect (y_moved fmy e), y_moved fmy e)))"
  by (simp add: y_pass_def Let_def physics_rects_around_total [OF assms] y_moved_def)

lemma moved_fields [simp]:
  "collisions (x_moved fmx e) = collisions e" "collisions (y_moved fmy e) = collisions e"
  "esize (x_moved fmx e) = esize e" "esize (y_moved fmy e) = esize e"
  "velocity (x_moved fmx e) = velocity e" "velocity (y_moved fmy e) = velocity e"
  "flip (x_moved fmx e) = flip e" "flip (y_moved fmy e) = flip e"
  "last_movement (x_moved fmx e) = last_movement e" "last_movement (y_moved fmy e) = last_movement e"
  "epos (x_moved fmx e) = (fst (epos e) + fmx, snd (epos e))"
  "epos (y_moved fmy e) = (fst (epos e), snd (epos e) + fmy)"
  by (simp_all add: x_moved_def y_moved_def)

lemma x_pass_flags:
  assumes "tile_size tm \<noteq> 0" and "x_pass tm fmx e = Inr e1"
  shows "right (collisions e1) \<longleftrightarrow> right (collisions e) \<or> (0 < fmx \<and> x_contacts tm fmx e \<noteq> [])"
    and "left (collisions e1) \<longleftrightarrow> left (collisions e) \<or> (fmx < 0 \<and> x_contacts tm fmx e \<noteq> [])"
    and "up (collisions e1) = up (collisions e)" and "down (collisions e1) = down (collisions e)"
    and "snd (epos e1) = snd (epos e)" and "esize e1 = esize e" and "velocity e1 = velocity e"
    and "flip e1 = flip e" and "last_movement e1 = last_movement e"
  using assms(2) unfolding x_pass_total [OF assms(1)]
  by (auto simp: x_loop_right_iff x_loop_left_iff x_loop_frame x_contacts_def filter_empty_conv)

lemma y_pass_flags:
  assumes "tile_size tm \<noteq> 0" and "y_pass tm fmy e = Inr e2"
  shows "down (collisions e2) \<longleftrightarrow> down (collisions e) \<or> (0 < fmy \<and> y_contacts tm fmy e \<noteq> [])"
    and "up (collisions e2) \<longleftrightarrow> up (collisions e) \<or> (fmy < 0 \<and> y_contacts tm fmy e \<noteq> [])"
    and "right (collisions e2) = right (collisions e)" and "left (collisions e2) = left (collisions e)"
    and "fst (epos e2) = fst (epos e)" and "esize e2 = esize e" and "velocity e2 = velocity e"
    and "flip e2 = flip e" and "last_movement e2 = last_movement e"
  using assms(2) unfolding y_pass_total [OF assms(1)]
  by (auto simp: y_loop_down_iff y_loop_up_iff y_loop_frame y_contacts_def filter_empty_conv)

lemma x_pass_written:
  assumes "tile_size tm \<noteq> 0" and "x_pass tm fmx e = Inr e1"
    and "\<not> right (collisions e)" and "\<not> left (collisions e)"
    and "right (collisions e1) \<or> left (collisions e1)"
  shows "fst (epos e1) =
      of_int (rx (fst (x_loop fmx (rects_at tm (epos (x_moved fmx e))) (rect (x_moved fmx e), x_moved fmx e))))"
proof -
  let ?s = "x_loop fmx (rects_at tm (epos (x_moved fmx e))) (rect (x_moved fmx e), x_moved fmx e)"
  have e1: "e1 = snd ?s"
    using assms(2) unfolding x_pass_total [OF assms(1)] by simp
  have "right (collisions (x_moved fmx e)) \<or> left (collisions (x_moved fmx e))
      \<longrightarrow> fst (epos (x_moved fmx e)) = of_int (rx (rect (x_moved fmx e)))"
    using assms(3,4) by simp
  from x_loop_written [OF this, of fmx "rects_at tm (epos (x_moved fmx e))"] assms(5)
  show ?thesis unfolding e1 by blast
qed

lemma y_pass_written:
  assumes "tile_size tm \<noteq> 0" and "y_pass tm fmy e = Inr e2"
    and "\<not> down (collisions e)" and "\<not> up (collisions e)"
    and "down (collisions e2) \<or> up (collisions e2)"
  shows "snd (epos e2) =
      of_int (ry (fst (y_loop fmy (rects_at tm (epos (y_moved fmy e))) (rect (y_moved fmy e), y_moved fmy e))))"
proof -
  let ?s = "y_loop fmy (rects_at tm (epos (y_moved fmy e))) (rect (y_moved fmy e), y_moved fmy e)"
  have e2: "e2 = snd ?s"
    using assms(2) unfolding y_pass_total [OF assms(1)] by simp
  have "down (collisions (y_moved fmy e)) \<or> up (collisions (y_moved fmy e))
      \<longrightarrow> snd (epos (y_moved fmy e)) = of_int (ry (rect (y_moved fmy e)))"
    using assms(3,4) by simp
  from y_loop_written [OF this, of fmy "rects_at tm (epos (y_moved fmy e))"] assms(5)
  show ?thesis unfolding e2 by blast
qed

lemma update_total:
  assumes "tile_size tm \<noteq> 0"
  shows "\<exists>e1 e2. x_pass tm (fst (frame_movement movement e)) (e\<lparr>collisions := no_collisions\<rparr>) = Inr e1
    \<and> y_pass tm (snd (frame_movement movement e)) e1 = Inr e2
    \<and> update tm movement e = Inr (finish movement e2)"
  by (simp add: update_def Let_def x_pass_total [OF assms] y_pass_total [OF assms] frame_movement_def)

lemma finish_fields:
  "epos (finish movement e) = epos e" "collisions (finish movement e) = collisions e"
  "esize (finish movement e) = esize e"
  "fst (velocity (finish movement e)) = fst (velocity e)"
  "snd (velocity (finish movement e)) =
     (if down (collisions e) \<or> up (collisions e) then 0 else min 5 (snd (velocity e) + 1 / 10))"
  by (simp_all add: finish_def Let_def)

lemma reset_fields [simp]:
  "x_contacts tm fmx (e\<lparr>collisions := c\<rparr>) = x_contacts tm fmx e"
  "rect (x_moved fmx (e\<lparr>collisions := c\<rparr>)) = rect (x_moved fmx e)"
  "frame_movement movement (e\<lparr>collisions := c\<rparr>) = frame_movement movement e"
  by (simp_all add: x_contacts_def rect_def frame_movement_def)

lemma rect_fields [simp]:
  "rx (rect e) = py_int (fst (epos e))" "ry (rect e) = py_int (snd (epos e))"
  "rw (rect e) = fst (esize e)" "rh (rect e) = snd (esize e)"
  by (simp_all add: rect_def)

lemma moved_zero [simp]: "x_moved 0 e = e" "y_moved 0 e = e"
  by (simp_all add: x_moved_def y_moved_def)

lemma x_pass_zero:
  assumes "tile_size tm \<noteq> 0"
  shows "x_pass tm 0 e =
     Inr (if x_contacts tm 0 e = [] then e
          else e\<lparr>epos := (of_int (py_int (fst (epos e))), snd (epos e))\<rparr>)"
  by (simp add: x_pass_total [OF assms] x_loop_zero x_contacts_def filter_empty_conv)

lemma y_pass_zero:
  assumes "tile_size tm \<noteq> 0"
  shows "y_pass tm 0 e =
     Inr (if y_contacts tm 0 e = [] then e
          else e\<lparr>epos := (fst (epos e), of_int (py_int (snd (epos e))))\<rparr>)"
  by (simp add: y_pass_total [OF assms] y_loop_zero y_contacts_def filter_empty_conv)

lemma rect_truncated:
  "rect (e\<lparr>epos := (of_int (py_int (fst (epos e))), snd (epos e))\<rparr>) = rect e"
  "rect (e\<lparr>epos := (fst (epos e), of_int (py_int (snd (epos e))))\<rparr>) = rect e"
  by (simp_all add: rect_def py_int_of_int)

lemma small_map_rects:
  assumes "0 \<le> px" "px < 16" "0 \<le> py" "py < 16"
  shows "rects_at small_map (px, py) = [wall, floor_rect]"
proof -
  have ts: "tile_size small_map = 16"
    by (simp add: small_map_def)
  have fl: "\<lfloor>px / 16\<rfloor> = 0" "\<lfloor>py / 16\<rfloor> = 0"
    using assms by (simp_all add: floor_eq_iff)
  have "tiles_around small_map (px, py) = Inr [grass_at 1 0, grass_at 0 1, decor_at (-1) 0]"
    using tiles_around_cells [of small_map px py]
    by (simp add: ts fl small_map_cells present_def Let_def)
  then show ?thesis
    by (simp add: rects_at_def physics_rects_around_def ts PHYSICS_TILES_def wall_def floor_rect_def)
qed

lemma small_map_cells_above:
  "cell small_map 1 2 = None" "cell small_map 1 3 = None" "cell small_map 0 2 = None"
  "cell small_map 0 3 = None" "cell small_map (-1) 2 = None" "cell small_map (-1) 3 = None"
  by (simp_all add: cell_def small_map_def loc_key_def str_def str_nat.simps digit_char_def)

lemma small_map_rects_row1:
  assumes "0 \<le> px" "px < 16" "16 \<le> py" "py < 32"
  shows "rects_at small_map (px, py) = [wall, floor_rect]"
proof -
  have ts: "tile_size small_map = 16"
    by (simp add: small_map_def)
  have fl: "\<lfloor>px / 16\<rfloor> = 0" "\<lfloor>py / 16\<rfloor> = 1"
    using assms by (simp_all add: floor_eq_iff)
  have "tiles_around small_map (px, py) = Inr [grass_at 1 0, grass_at 0 1, decor_at (-1) 0]"
    using tiles_around_cells [of small_map px py]
    by (simp add: ts fl small_map_cells small_map_cells_above present_def Let_def)
  then show ?thesis
    by (simp add: rects_at_def physics_rects_around_def ts PHYSICS_TILES_def wall_def floor_rect_def)
qed

lemma small_map_rects_row2:
  assumes "0 \<le> px" "px < 16" "32 \<le> py" "py < 48"
  shows "rects_at small_map (px, py) = [floor_rect]"
proof -
  have ts: "tile_size small_map = 16"
    by (simp add: small_map_def)
  have fl: "\<lfloor>px / 16\<rfloor> = 0" "\<lfloor>py / 16\<rfloor> = 2"
    using assms by (simp_all add: floor_eq_iff)
  have "tiles_around small_map (px, py) = Inr [grass_at 0 1]"
    using tiles_around_cells [of small_map px py]
    by (simp add: ts fl small_map_cells small_map_cells_above present_def Let_def)
  then show ?thesis
    by (simp add: rects_at_def physics_rects_around_def ts PHYSICS_TILES_def floor_rect_def)
qed

lemma small_map_tile_size: "tile_size small_map = 16"
  by (simp add: small_map_def)

lemmas run_update =
  update_def Let_def x_pass_total y_pass_total frame_movement_def small_map_tile_size
  small_map_rects small_map_rects_row1 small_map_rects_row2 x_moved_def y_moved_def rect_def py_int_def wall_def floor_rect_def
  colliderect_def set_right_def set_left_def set_top_def set_bottom_def rect_left_def
  rect_right_def rect_top_def rect_bottom_def finish_def no_collisions_def

lemma runner_update:
  "update small_map (3, 0) runner =
     Inr \<lparr>epos = (8, 0), esize = (8, 15), velocity = (0, 1 / 10),
          collisions = \<lparr>up = False, down = False, right = True, left = False\<rparr>,
          flip = False, last_movement = (3, 0)\<rparr>"
  by (simp add: run_update runner_def)

lemma faller_update:
  "update small_map (0, 0) faller =
     Inr \<lparr>epos = (1 / 2, 1), esize = (8, 15), velocity = (0, 0),
          collisions = \<lparr>up = False, down = True, right = False, left = False\<rparr>,
          flip = False, last_movement = (0, 0)\<rparr>"
  by (simp add: run_update faller_def)

lemma resting_update:
  "update small_map (0, 0) resting =
     Inr \<lparr>epos = (10, 0), esize = (8, 15), velocity = (0, 1 / 10),
          collisions = \<lparr>up = False, down = False, right = False, left = False\<rparr>,
          flip = False, last_movement = (0, 0)\<rparr>"
  by (simp add: run_update resting_def)

lemma diver_update:
  "update small_map (3, 0) diver =
     Inr \<lparr>epos = (8, 1), esize = (8, 15), velocity = (0, 0),
          collisions = \<lparr>up = False, down = True, right = True, left = False\<rparr>,
          flip = False, last_movement = (3, 0)\<rparr>"
  by (simp add: run_update diver_def)

lemma jumper_update:
  "update small_map (0, 0) jumper =
     Inr \<lparr>epos = (1 / 2, 32), esize = (8, 15), velocity = (0, 0),
          collisions = \<lparr>up = True, down = False, right = False, left = False\<rparr>,
          flip = False, last_movement = (0, 0)\<rparr>"
  by (simp add: run_update jumper_def)

lemma resting_x_pass: "x_pass small_map 0 resting = Inr (resting\<lparr>epos := (10, 0)\<rparr>)"
proof -
  have ts: "tile_size small_map \<noteq> 0"
    by (simp add: small_map_def)
  have "x_contacts small_map 0 resting = [wall]"
    by (simp add: x_contacts_def resting_def small_map_rects wall_def floor_rect_def
        colliderect_def py_int_def)
  then show ?thesis
    by (simp add: x_pass_zero [OF ts]) (simp add: resting_def py_int_def)
qed



text \<open>
  C7. With a tile size other than zero every \<open>update\<close> returns an entity. The frame sets
  \<open>down\<close> exactly when the vertical frame movement is downward and the entity, moved
  vertically after the horizontal pass, overlaps a physics rectangle around it, and \<open>up\<close>
  exactly when the movement is upward and there is such an overlap. The vertical velocity
  is then 0 when \<open>down\<close> or \<open>up\<close> was set, and otherwise the old vertical velocity plus 1/10,
  capped at 5; it never exceeds 5. So an entity that lands on a tile below ends the update
  with \<open>down\<close> set and vertical velocity 0, and one that hits a tile above with \<open>up\<close> set
  and vertical velocity 0.
\<close>

theorem update_gravity:
  assumes "tile_size tm \<noteq> 0"
  shows "\<exists>e1 e'. x_pass tm (fst (frame_movement movement e)) (e\<lparr>collisions := no_collisions\<rparr>) = Inr e1
    \<and> update tm movement e = Inr e'
    \<and> (down (collisions e') \<longleftrightarrow>
         0 < snd (frame_movement movement e) \<and> y_contacts tm (snd (frame_movement movement e)) e1 \<noteq> [])
    \<and> (up (collisions e') \<longleftrightarrow>
         snd (frame_movement movement e) < 0 \<and> y_contacts tm (snd (frame_movement movement e)) e1 \<noteq> [])
    \<and> snd (velocity e') =
        (if down (collisions e') \<or> up (collisions e') then 0 else min 5 (snd (velocity e) + 1 / 10))
    \<and> snd (velocity e') \<le> 5
    \<and> (0 < snd (frame_movement movement e) \<and> y_contacts tm (snd (frame_movement movement e)) e1 \<noteq> []
         \<longrightarrow> down (collisions e') \<and> snd (velocity e') = 0)
    \<and> (snd (frame_movement movement e) < 0 \<and> y_contacts tm (snd (frame_movement movement e)) e1 \<noteq> []
         \<longrightarrow> up (collisions e') \<and> snd (velocity e') = 0)"
proof -
  let ?fy = "snd (frame_movement movement e)"
  from update_total [OF assms, of movement e] obtain e1 e2
    where x: "x_pass tm (fst (frame_movement movement e)) (e\<lparr>collisions := no_collisions\<rparr>) = Inr e1"
      and y: "y_pass tm ?fy e1 = Inr e2"
      and u: "update tm movement e = Inr (finish movement e2)"
    by blast
  have none: "\<not> down (collisions e1)" "\<not> up (collisions e1)"
    using x_pass_flags(3,4) [OF assms x] by (simp_all add: no_collisions_def)
  have v: "snd (velocity e2) = snd (velocity e)"
    using x_pass_flags(7) [OF assms x] y_pass_flags(7) [OF assms y] by simp
  have d: "down (collisions e2) \<longleftrightarrow> 0 < ?fy \<and> y_contacts tm ?fy e1 \<noteq> []"
    using y_pass_flags(1) [OF assms y] none by simp
  have p: "up (collisions e2) \<longleftrightarrow> ?fy < 0 \<and> y_contacts tm ?fy e1 \<noteq> []"
    using y_pass_flags(2) [OF assms y] none by simp
  let ?e' = "finish movement e2"
  have c: "collisions ?e' = collisions e2"
    by (simp add: finish_fields)
  have vel: "snd (velocity ?e') =
      (if down (collisions ?e') \<or> up (collisions ?e') then 0 else min 5 (snd (velocity e) + 1 / 10))"
    by (simp add: finish_fields v)
  have cap: "snd (velocity ?e') \<le> 5"
    unfolding vel by simp
  have land: "0 < ?fy \<and> y_contacts tm ?fy e1 \<noteq> [] \<longrightarrow> down (collisions ?e') \<and> snd (velocity ?e') = 0"
    unfolding vel c using d by simp
  have bump: "?fy < 0 \<and> y_contacts tm ?fy e1 \<noteq> [] \<longrightarrow> up (collisions ?e') \<and> snd (velocity ?e') = 0"
    unfolding vel c using p by simp
  have d': "down (collisions ?e') \<longleftrightarrow> 0 < ?fy \<and> y_contacts tm ?fy e1 \<noteq> []"
    unfolding c by (rule d)
  have p': "up (collisions ?e') \<longleftrightarrow> ?fy < 0 \<and> y_contacts tm ?fy e1 \<noteq> []"
    unfolding c by (rule p)
  show ?thesis
    by (intro exI [of _ e1] exI [of _ ?e'] conjI x u d' p' vel cap land bump)
qed

theorem update_gravity_witness:
  "tile_size small_map \<noteq> 0
   \<and> snd (frame_movement (0, 0) faller) = 3
   \<and> x_pass small_map 0 (faller\<lparr>collisions := no_collisions\<rparr>) = Inr faller
   \<and> y_contacts small_map 3 faller = [floor_rect]
   \<and> (\<exists>e'. update small_map (0, 0) faller = Inr e'
         \<and> down (collisions e') \<and> snd (velocity e') = 0)
   \<and> snd (frame_movement (0, 0) jumper) = - 3
   \<and> x_pass small_map 0 (jumper\<lparr>collisions := no_collisions\<rparr>) = Inr jumper
   \<and> y_contacts small_map (- 3) jumper = [floor_rect]
   \<and> (\<exists>e'. update small_map (0, 0) jumper = Inr e'
         \<and> up (collisions e') \<and> snd (velocity e') = 0)
   \<and> (\<exists>e'. update small_map (3, 0) runner = Inr e'
         \<and> \<not> down (collisions e') \<and> \<not> up (collisions e') \<and> snd (velocity e') = 1 / 10)"
proof -
  have ts: "tile_size small_map \<noteq> 0"
    by (simp add: small_map_def)
  have fm: "frame_movement (0, 0) faller = (0, 3)"
    by (simp add: frame_movement_def faller_def)
  have xp: "x_pass small_map 0 (faller\<lparr>collisions := no_collisions\<rparr>) = Inr faller"
    by (simp add: x_pass_zero [OF ts]) (simp add: x_contacts_def faller_def small_map_rects
        rect_def py_int_def wall_def floor_rect_def colliderect_def)
  have yc: "y_contacts small_map 3 faller = [floor_rect]"
    by (simp add: y_contacts_def faller_def small_map_rects rect_def py_int_def wall_def
        floor_rect_def colliderect_def)
  from update_gravity [OF ts, of "(0, 0)" faller] obtain e1 e'
    where g: "x_pass small_map (fst (frame_movement (0, 0) faller)) (faller\<lparr>collisions := no_collisions\<rparr>) = Inr e1"
      "update small_map (0, 0) faller = Inr e'"
      "0 < snd (frame_movement (0, 0) faller)
         \<and> y_contacts small_map (snd (frame_movement (0, 0) faller)) e1 \<noteq> []
       \<longrightarrow> down (collisions e') \<and> snd (velocity e') = 0"
    by blast
  have "e1 = faller"
    using g(1) xp by (simp add: fm)
  then have land: "\<exists>e'. update small_map (0, 0) faller = Inr e'
         \<and> down (collisions e') \<and> snd (velocity e') = 0"
    using g(2,3) by (simp add: fm yc)
  have fmj: "frame_movement (0, 0) jumper = (0, - 3)"
    by (simp add: frame_movement_def jumper_def)
  have xpj: "x_pass small_map 0 (jumper\<lparr>collisions := no_collisions\<rparr>) = Inr jumper"
    by (simp add: x_pass_zero [OF ts]) (simp add: x_contacts_def jumper_def small_map_rects_row2
        rect_def py_int_def floor_rect_def colliderect_def)
  have ycj: "y_contacts small_map (- 3) jumper = [floor_rect]"
    by (simp add: y_contacts_def jumper_def small_map_rects_row1 rect_def py_int_def wall_def
        floor_rect_def colliderect_def)
  from update_gravity [OF ts, of "(0, 0)" jumper] obtain j1 j'
    where j: "x_pass small_map (fst (frame_movement (0, 0) jumper)) (jumper\<lparr>collisions := no_collisions\<rparr>) = Inr j1"
      "update small_map (0, 0) jumper = Inr j'"
      "snd (frame_movement (0, 0) jumper) < 0
         \<and> y_contacts small_map (snd (frame_movement (0, 0) jumper)) j1 \<noteq> []
       \<longrightarrow> up (collisions j') \<and> snd (velocity j') = 0"
    by blast
  have "j1 = jumper"
    using j(1) xpj by (simp add: fmj)
  then have bump: "\<exists>e'. update small_map (0, 0) jumper = Inr e'
         \<and> up (collisions e') \<and> snd (velocity e') = 0"
    using j(2,3) by (simp add: fmj ycj)
  from update_gravity [OF ts, of "(3, 0)" runner] obtain e''
    where h: "update small_map (3, 0) runner = Inr e''"
      "snd (velocity e'') =
        (if down (collisions e'') \<or> up (collisions e'') then 0 else min 5 (snd (velocity runner) + 1 / 10))"
    by blast
  have "\<not> down (collisions e'') \<and> \<not> up (collisions e'')"
    using h(1) by (auto simp: runner_update)
  then have run: "\<exists>e'. update small_map (3, 0) runner = Inr e'
         \<and> \<not> down (collisions e') \<and> \<not> up (collisions e') \<and> snd (velocity e') = 1 / 10"
    using h by (simp add: runner_def)
  show ?thesis
    using ts fm xp yc land fmj xpj ycj bump run by simp
qed

text \<open>
  C9. After an update that set \<open>right\<close> or \<open>left\<close> the horizontal position is an integer,
  the left edge of the entity's rectangle; after one that set \<open>down\<close> or \<open>up\<close> the vertical
  position is an integer, the top edge of the rectangle.
\<close>

theorem clamp_writes_integer:
  assumes "tile_size tm \<noteq> 0"
  shows "\<exists>e'. update tm movement e = Inr e'
    \<and> (right (collisions e') \<or> left (collisions e')
         \<longrightarrow> fst (epos e') = of_int (rx (rect e')) \<and> fst (epos e') \<in> \<int>)
    \<and> (down (collisions e') \<or> up (collisions e')
         \<longrightarrow> snd (epos e') = of_int (ry (rect e')) \<and> snd (epos e') \<in> \<int>)"
proof -
  let ?fx = "fst (frame_movement movement e)" and ?fy = "snd (frame_movement movement e)"
  let ?e0 = "e\<lparr>collisions := no_collisions\<rparr>"
  from update_total [OF assms, of movement e] obtain e1 e2
    where x: "x_pass tm ?fx ?e0 = Inr e1" and y: "y_pass tm ?fy e1 = Inr e2"
      and u: "update tm movement e = Inr (finish movement e2)"
    by blast
  have none: "\<not> right (collisions ?e0)" "\<not> left (collisions ?e0)"
    "\<not> up (collisions ?e0)" "\<not> down (collisions ?e0)"
    by (simp_all add: no_collisions_def)
  have none1: "\<not> down (collisions e1)" "\<not> up (collisions e1)"
    using x_pass_flags(3,4) [OF assms x] none by simp_all
  have "right (collisions e1) \<or> left (collisions e1) \<Longrightarrow> \<exists>i. fst (epos e1) = of_int i"
    using x_pass_written [OF assms x none(1,2)] by blast
  then have hx: "right (collisions e2) \<or> left (collisions e2) \<longrightarrow> (\<exists>i. fst (epos e2) = of_int i)"
    using y_pass_flags(3,4,5) [OF assms y] by simp
  have hy: "down (collisions e2) \<or> up (collisions e2) \<longrightarrow> (\<exists>i. snd (epos e2) = of_int i)"
    using y_pass_written [OF assms y none1] by blast
  have int: "\<And>v :: real. (\<exists>i. v = of_int i) \<Longrightarrow> v = of_int (py_int v) \<and> v \<in> \<int>"
    by (auto simp: py_int_of_int)
  show ?thesis
    using u hx hy int by (auto simp: finish_fields)
qed

theorem clamp_writes_integer_witness:
  "tile_size small_map \<noteq> 0
   \<and> fst (epos diver) + fst (frame_movement (3, 0) diver) = 19 / 2
   \<and> snd (epos diver) + snd (frame_movement (3, 0) diver) = 7 / 2
   \<and> (\<exists>e'. update small_map (3, 0) diver = Inr e'
         \<and> right (collisions e') \<and> down (collisions e')
         \<and> epos e' = (8, 1) \<and> fst (epos e') \<in> \<int> \<and> snd (epos e') \<in> \<int>)"
proof -
  have ts: "tile_size small_map \<noteq> 0"
    by (simp add: small_map_def)
  have fm: "frame_movement (3, 0) diver = (3, 3)" "epos diver = (13 / 2, 1 / 2)"
    by (simp_all add: frame_movement_def diver_def)
  from clamp_writes_integer [OF ts, of "(3, 0)" diver] obtain e'
    where c: "update small_map (3, 0) diver = Inr e'"
      "right (collisions e') \<or> left (collisions e') \<longrightarrow> fst (epos e') \<in> \<int>"
      "down (collisions e') \<or> up (collisions e') \<longrightarrow> snd (epos e') \<in> \<int>"
    by blast
  have f: "right (collisions e')" "down (collisions e')" "epos e' = (8, 1)"
    using c(1) by (auto simp: diver_update)
  then have "\<exists>e'. update small_map (3, 0) diver = Inr e'
         \<and> right (collisions e') \<and> down (collisions e')
         \<and> epos e' = (8, 1) \<and> fst (epos e') \<in> \<int> \<and> snd (epos e') \<in> \<int>"
    using c by blast
  then show ?thesis
    using ts by (simp add: fm)
qed

text \<open>
  C10 as stated fails: with zero frame movement the horizontal pass moves an entity at
  \<open>x = 21/2\<close> that overlaps a tile to \<open>x = 10\<close>.
\<close>

theorem zero_movement_moves_entity:
  "frame_movement (0, 0) resting = (0, 0)
   \<and> x_contacts small_map 0 resting = [wall]
   \<and> x_pass small_map 0 resting = Inr (resting\<lparr>epos := (10, 0)\<rparr>)
   \<and> epos resting = (21 / 2, 0)
   \<and> epos (resting\<lparr>epos := (10, 0)\<rparr>) \<noteq> epos resting
   \<and> update small_map (0, 0) resting =
       Inr \<lparr>epos = (10, 0), esize = (8, 15), velocity = (0, 1 / 10),
            collisions = \<lparr>up = False, down = False, right = False, left = False\<rparr>,
            flip = False, last_movement = (0, 0)\<rparr>"
proof -
  have "x_contacts small_map 0 resting = [wall]"
    by (simp add: x_contacts_def resting_def small_map_rects wall_def floor_rect_def
        colliderect_def rect_def py_int_def)
  moreover have "frame_movement (0, 0) resting = (0, 0)"
    by (simp add: frame_movement_def resting_def)
  moreover have "epos resting = (21 / 2, 0)"
    by (simp add: resting_def)
  ultimately show ?thesis
    by (simp add: resting_x_pass resting_update)
qed

text \<open>
  C10, as amended. With zero movement a pass sets no flag and leaves the entity's
  rectangle where it is, also when the rectangle overlaps a physics rectangle; the position
  on the axis stays as it is when nothing overlaps, and is truncated to an integer when
  something does. An update with zero frame movement on both axes ends with all four flags
  unset and the rectangle unmoved.
\<close>

theorem zero_movement_pass:
  assumes "tile_size tm \<noteq> 0"
  shows "(\<exists>e1. x_pass tm 0 e = Inr e1 \<and> collisions e1 = collisions e \<and> rect e1 = rect e
            \<and> snd (epos e1) = snd (epos e)
            \<and> fst (epos e1) =
                (if x_contacts tm 0 e = [] then fst (epos e) else of_int (py_int (fst (epos e)))))
    \<and> (\<exists>e2. y_pass tm 0 e = Inr e2 \<and> collisions e2 = collisions e \<and> rect e2 = rect e
            \<and> fst (epos e2) = fst (epos e)
            \<and> snd (epos e2) =
                (if y_contacts tm 0 e = [] then snd (epos e) else of_int (py_int (snd (epos e)))))
    \<and> (frame_movement movement e = (0, 0)
         \<longrightarrow> (\<exists>e'. update tm movement e = Inr e' \<and> collisions e' = no_collisions
                  \<and> rect e' = rect e))"
proof -
  have x: "\<And>e. \<exists>e1. x_pass tm 0 e = Inr e1 \<and> collisions e1 = collisions e \<and> rect e1 = rect e
            \<and> snd (epos e1) = snd (epos e)
            \<and> fst (epos e1) =
                (if x_contacts tm 0 e = [] then fst (epos e) else of_int (py_int (fst (epos e))))"
    by (simp add: x_pass_zero [OF assms] rect_truncated)
  have y: "\<And>e. \<exists>e2. y_pass tm 0 e = Inr e2 \<and> collisions e2 = collisions e \<and> rect e2 = rect e
            \<and> fst (epos e2) = fst (epos e)
            \<and> snd (epos e2) =
                (if y_contacts tm 0 e = [] then snd (epos e) else of_int (py_int (snd (epos e))))"
    by (simp add: y_pass_zero [OF assms] rect_truncated)
  have "\<exists>e'. update tm movement e = Inr e' \<and> collisions e' = no_collisions \<and> rect e' = rect e"
    if fm: "frame_movement movement e = (0, 0)"
  proof -
    let ?e0 = "e\<lparr>collisions := no_collisions\<rparr>"
    from x [of ?e0] obtain e1 where e1: "x_pass tm 0 ?e0 = Inr e1"
      "collisions e1 = no_collisions" "rect e1 = rect ?e0"
      by auto
    from y [of e1] obtain e2 where e2: "y_pass tm 0 e1 = Inr e2"
      "collisions e2 = collisions e1" "rect e2 = rect e1"
      by auto
    have "update tm movement e = Inr (finish movement e2)"
      using e1(1) e2(1) fm by (simp add: update_def Let_def)
    moreover have "rect (finish movement e2) = rect e"
      using e1(3) e2(3) by (simp add: rect_def finish_fields)
    ultimately show ?thesis
      using e1(2) e2(2) by (simp add: finish_fields)
  qed
  then show ?thesis
    using x [of e] y [of e] by blast
qed

theorem zero_movement_pass_witness:
  "tile_size small_map \<noteq> 0
   \<and> frame_movement (0, 0) resting = (0, 0)
   \<and> x_contacts small_map 0 resting = [wall]
   \<and> (\<exists>e1. x_pass small_map 0 resting = Inr e1 \<and> collisions e1 = collisions resting
         \<and> rect e1 = rect resting \<and> fst (epos e1) = 10)
   \<and> (\<exists>e'. update small_map (0, 0) resting = Inr e' \<and> collisions e' = no_collisions
         \<and> rect e' = rect resting)"
proof -
  have ts: "tile_size small_map \<noteq> 0"
    by (simp add: small_map_def)
  have fm: "frame_movement (0, 0) resting = (0, 0)"
    by (simp add: frame_movement_def resting_def)
  have xc: "x_contacts small_map 0 resting = [wall]"
    by (simp add: x_contacts_def resting_def small_map_rects wall_def floor_rect_def
        colliderect_def rect_def py_int_def)
  have tr: "real_of_int (py_int (fst (epos resting))) = 10"
    by (simp add: resting_def py_int_def)
  from zero_movement_pass [OF ts, of resting "(0, 0)"]
  have "(\<exists>e1. x_pass small_map 0 resting = Inr e1 \<and> collisions e1 = collisions resting
         \<and> rect e1 = rect resting \<and> fst (epos e1) = 10)
   \<and> (\<exists>e'. update small_map (0, 0) resting = Inr e' \<and> collisions e' = no_collisions
         \<and> rect e' = rect resting)"
    by (simp add: fm xc tr) blast
  then show ?thesis
    using ts fm xc by simp
qed

end
